theory Spec2Isabelle
  imports Main
begin

chapter \<open>The realtime signaling core of ChatApp\<close>

text \<open>
  The server part is \<^verbatim>\<open>src/api/index.js\<close> (the push registry \<^verbatim>\<open>clients\<close>, the dispatcher
  \<^verbatim>\<open>sendEvent\<close>, the signal queue \<^verbatim>\<open>callSignals\<close> with \<^verbatim>\<open>addCallSignal\<close> and
  \<^verbatim>\<open>getCallSignals\<close>, and the call endpoints); the client part is the component
  \<^verbatim>\<open>ChatDashboard\<close> of \<^verbatim>\<open>src/client/src/App.jsx\<close>. Time is the value of \<^verbatim>\<open>Date.now()\<close>,
  an integer number of milliseconds, passed to every operation that reads the clock.
\<close>

section \<open>JavaScript values\<close>

text \<open>
  User ids and event payloads are untyped in the source: an id is a number in one place
  and a string in another, and the code converts with \<^verbatim>\<open>String\<close>, \<^verbatim>\<open>parseInt\<close> and tests
  with \<^verbatim>\<open>isNaN\<close>, \<^verbatim>\<open>typeof\<close> and truthiness. Numbers are the integers and \<^verbatim>\<open>NaN\<close>; strings
  are lists of 8-bit characters; an object is the list of its own properties in insertion
  order.
\<close>

datatype js = JUndefined | JNull | JBool bool | JNum int | JNaN | JStr string
  | JObj "(string \<times> js) list"

fun truthy :: "js \<Rightarrow> bool" where
  "truthy JUndefined = False"
| "truthy JNull = False"
| "truthy (JBool b) = b"
| "truthy (JNum n) = (n \<noteq> 0)"
| "truthy JNaN = False"
| "truthy (JStr s) = (s \<noteq> [])"
| "truthy (JObj fs) = True"

definition js_or :: "js \<Rightarrow> js \<Rightarrow> js" where
  \<comment> \<open>\<^verbatim>\<open>a || b\<close>\<close>
  "js_or a b = (if truthy a then a else b)"

fun getProp :: "js \<Rightarrow> string \<Rightarrow> js" where
  \<comment> \<open>\<^verbatim>\<open>o?.k\<close>: the own property, \<^verbatim>\<open>undefined\<close> when it is missing or \<^verbatim>\<open>o\<close> is not an object.
     The plain \<^verbatim>\<open>o.k\<close> of the source is modelled by it wherever \<^verbatim>\<open>o\<close> was tested truthy before.\<close>
  "getProp (JObj fs) k = (case map_of fs k of Some v \<Rightarrow> v | None \<Rightarrow> JUndefined)"
| "getProp v k = JUndefined"

fun put_prop :: "string \<Rightarrow> js \<Rightarrow> (string \<times> js) list \<Rightarrow> (string \<times> js) list" where
  \<comment> \<open>assignment of one property: in place when the key exists, appended otherwise\<close>
  "put_prop k v [] = [(k, v)]"
| "put_prop k v (p # ps) = (if fst p = k then (k, v) # ps else p # put_prop k v ps)"

definition digit_char :: "nat \<Rightarrow> char" where
  "digit_char d = ''0123456789'' ! d"

fun string_of_nat :: "nat \<Rightarrow> string" where
  "string_of_nat n =
     (if n < 10 then [digit_char n] else string_of_nat (n div 10) @ [digit_char (n mod 10)])"

declare string_of_nat.simps [simp del]

definition string_of_int :: "int \<Rightarrow> string" where
  "string_of_int i = (if i < 0 then CHR ''-'' # string_of_nat (nat (- i)) else string_of_nat (nat i))"

fun own_props :: "js \<Rightarrow> (string \<times> js) list" where
  \<comment> \<open>the properties an object spread \<^verbatim>\<open>{...v}\<close> copies\<close>
  "own_props (JObj fs) = fs"
| "own_props (JStr s) = map (\<lambda>(i, c). (string_of_nat i, JStr [c])) (enumerate 0 s)"
| "own_props v = []"

fun js_String :: "js \<Rightarrow> string" where
  \<comment> \<open>\<^verbatim>\<open>String(v)\<close>, which is also the property key \<^verbatim>\<open>obj[v]\<close> uses\<close>
  "js_String JUndefined = ''undefined''"
| "js_String JNull = ''null''"
| "js_String (JBool b) = (if b then ''true'' else ''false'')"
| "js_String (JNum n) = string_of_int n"
| "js_String JNaN = ''NaN''"
| "js_String (JStr s) = s"
| "js_String (JObj fs) = ''[object Object]''"

definition js_space :: "char \<Rightarrow> bool" where
  \<comment> \<open>white space and line terminators among the 8-bit characters\<close>
  "js_space c = (of_char c \<in> set [9, 10, 11, 12, 13, 32, 160 :: nat])"

definition digit_val :: "nat \<Rightarrow> char \<Rightarrow> nat option" where
  \<comment> \<open>the value of a digit of the given radix (at most 16)\<close>
  "digit_val radix c =
     (let n = (of_char c :: nat);
          v = (if 48 \<le> n \<and> n \<le> 57 then Some (n - 48)
               else if 97 \<le> n \<and> n \<le> 102 then Some (n - 87)
               else if 65 \<le> n \<and> n \<le> 70 then Some (n - 55)
               else None)
      in case v of None \<Rightarrow> None | Some d \<Rightarrow> if d < radix then Some d else None)"

fun leading_digits :: "nat \<Rightarrow> string \<Rightarrow> nat list" where
  "leading_digits radix [] = []"
| "leading_digits radix (c # cs) =
     (case digit_val radix c of None \<Rightarrow> [] | Some d \<Rightarrow> d # leading_digits radix cs)"

definition hex_prefixed :: "string \<Rightarrow> bool" where
  "hex_prefixed s = (take 2 s = ''0x'' \<or> take 2 s = ''0X'')"

definition parseInt_gen :: "bool \<Rightarrow> string \<Rightarrow> js" where
  \<comment> \<open>\<^verbatim>\<open>parseInt\<close>: leading white space, an optional sign, then the longest prefix of digits;
     \<^verbatim>\<open>NaN\<close> when there is no digit. Without a radix argument a \<^verbatim>\<open>0x\<close> prefix selects
     radix 16; with radix 10 it does not.\<close>
  "parseInt_gen auto s =
     (let s1 = dropWhile js_space s;
          neg = (take 1 s1 = ''-'');
          s2 = (if take 1 s1 = ''-'' \<or> take 1 s1 = ''+'' then drop 1 s1 else s1);
          hex = (auto \<and> hex_prefixed s2);
          radix = (if hex then 16 else 10);
          ds = leading_digits radix (if hex then drop 2 s2 else s2);
          n = int (foldl (\<lambda>acc d. acc * radix + d) 0 ds)
      in if ds = [] then JNaN else JNum (if neg then - n else n))"

definition parseInt10 :: "string \<Rightarrow> js" where
  \<comment> \<open>\<^verbatim>\<open>parseInt(s, 10)\<close>\<close>
  "parseInt10 s = parseInt_gen False s"

definition parseInt :: "string \<Rightarrow> js" where
  \<comment> \<open>\<^verbatim>\<open>parseInt(s)\<close>\<close>
  "parseInt s = parseInt_gen True s"

definition is_dec_digit :: "char \<Rightarrow> bool" where
  "is_dec_digit c = (digit_val 10 c \<noteq> None)"

definition exponent_ok :: "string \<Rightarrow> bool" where
  \<comment> \<open>nothing, or \<^verbatim>\<open>e\<close>/\<^verbatim>\<open>E\<close>, an optional sign and at least one digit\<close>
  "exponent_ok r =
     (case r of [] \<Rightarrow> True
      | c # r1 \<Rightarrow> (c = CHR ''e'' \<or> c = CHR ''E'') \<and>
          (let r2 = (if take 1 r1 = ''-'' \<or> take 1 r1 = ''+'' then drop 1 r1 else r1)
           in r2 \<noteq> [] \<and> list_all is_dec_digit r2))"

definition decimal_literal :: "string \<Rightarrow> bool" where
  \<comment> \<open>\<^verbatim>\<open>Infinity\<close>, or digits with an optional fraction and exponent (a digit on at least
     one side of the point)\<close>
  "decimal_literal s =
     (s = ''Infinity'' \<or>
      (let ip = takeWhile is_dec_digit s; r1 = dropWhile is_dec_digit s;
           fp = (if take 1 r1 = ''.'' then takeWhile is_dec_digit (drop 1 r1) else []);
           r2 = (if take 1 r1 = ''.'' then dropWhile is_dec_digit (drop 1 r1) else r1)
       in (ip \<noteq> [] \<or> fp \<noteq> []) \<and> exponent_ok r2))"

definition radix_literal :: "string \<Rightarrow> bool" where
  \<comment> \<open>\<^verbatim>\<open>0x\<close>, \<^verbatim>\<open>0o\<close> or \<^verbatim>\<open>0b\<close> and at least one digit of that radix, unsigned\<close>
  "radix_literal s =
     (let r = (if take 2 s = ''0x'' \<or> take 2 s = ''0X'' then 16
               else if take 2 s = ''0o'' \<or> take 2 s = ''0O'' then 8
               else if take 2 s = ''0b'' \<or> take 2 s = ''0B'' then 2 else (0::nat))
      in r \<noteq> 0 \<and> drop 2 s \<noteq> [] \<and> list_all (\<lambda>c. digit_val r c \<noteq> None) (drop 2 s))"

definition numeric_string :: "string \<Rightarrow> bool" where
  \<comment> \<open>\<^verbatim>\<open>Number(s)\<close> is not \<^verbatim>\<open>NaN\<close>: after trimming, the empty string, a radix literal or a
     signed decimal literal\<close>
  "numeric_string s =
     (let t = rev (dropWhile js_space (rev (dropWhile js_space s)))
      in t = [] \<or> radix_literal t \<or>
         decimal_literal (if take 1 t = ''-'' \<or> take 1 t = ''+'' then drop 1 t else t))"

fun js_isNaN :: "js \<Rightarrow> bool" where
  \<comment> \<open>\<^verbatim>\<open>isNaN(v)\<close>, which converts its argument to a number first\<close>
  "js_isNaN JUndefined = True"
| "js_isNaN JNull = False"
| "js_isNaN (JBool b) = False"
| "js_isNaN (JNum n) = False"
| "js_isNaN JNaN = True"
| "js_isNaN (JStr s) = (\<not> numeric_string s)"
| "js_isNaN (JObj fs) = True"

definition strict_eq :: "js \<Rightarrow> js \<Rightarrow> bool" where
  \<comment> \<open>\<^verbatim>\<open>a === b\<close> on primitive values: \<^verbatim>\<open>NaN\<close> equals nothing\<close>
  "strict_eq a b = (a = b \<and> a \<noteq> JNaN)"

fun indexOf_from :: "nat \<Rightarrow> js list \<Rightarrow> js \<Rightarrow> int" where
  "indexOf_from i [] k = - 1"
| "indexOf_from i (x # xs) k = (if strict_eq x k then int i else indexOf_from (Suc i) xs k)"

definition indexOf :: "js list \<Rightarrow> js \<Rightarrow> int" where
  \<comment> \<open>\<^verbatim>\<open>self.indexOf(k)\<close>\<close>
  "indexOf self k = indexOf_from 0 self k"

definition toIdInt :: "js \<Rightarrow> js" where
  \<comment> \<open>the conversion the handlers apply to an id:
     \<^verbatim>\<open>typeof x === 'string' ? parseInt(x) : x\<close>\<close>
  "toIdInt x = (case x of JStr s \<Rightarrow> parseInt s | _ \<Rightarrow> x)"

section \<open>Server state\<close>

text \<open>
  \<^verbatim>\<open>clients\<close> maps a property key to the response object of an open event stream. The
  same response object is stored under several keys, so the registry holds addresses and
  the objects live in a store. A sink either accepts a write, which appends the frame, or
  raises on it.
\<close>

record sink =
  broken :: bool
  written :: "js list"

record signal =
  stype :: string
  sdata :: js
  timestamp :: int
  read :: bool
  readAt :: "int option"

record server =
  clients :: "string \<rightharpoonup> nat"
  sinks :: "nat \<Rightarrow> sink"
  callSignals :: "string \<rightharpoonup> signal list"

definition empty_server :: server where
  "empty_server = \<lparr>clients = Map.empty, sinks = (\<lambda>a. \<lparr>broken = False, written = []\<rparr>),
     callSignals = Map.empty\<rparr>"

subsection \<open>The push registry: \<^verbatim>\<open>app.get('/api/events')\<close>\<close>

definition storedKeys :: "js \<Rightarrow> string list" where
  \<comment> \<open>the keys under which a connection of the user with token id \<^verbatim>\<open>userId\<close> is stored,
     and which its close, error and keep-alive handlers delete\<close>
  "storedKeys userId =
     (let userIdStr = js_String userId;
          userIdInt = (case userId of JStr s \<Rightarrow> parseInt s | _ \<Rightarrow> userId)
      in [userIdStr, js_String userId]
         @ (case userId of JNum n \<Rightarrow> [js_String userId] | JNaN \<Rightarrow> [js_String userId] | _ \<Rightarrow> [])
         @ (if \<not> js_isNaN userIdInt then [js_String userIdInt, js_String userIdInt] else []))"

definition registerClient :: "js \<Rightarrow> nat \<Rightarrow> server \<Rightarrow> server" where
  \<comment> \<open>\<^verbatim>\<open>clients[key] = res\<close> for every stored key; \<^verbatim>\<open>res\<close> is the address of the response\<close>
  "registerClient userId res st =
     st\<lparr>clients := foldl (\<lambda>m k. m(k \<mapsto> res)) (clients st) (storedKeys userId)\<rparr>"

definition unregisterClient :: "js \<Rightarrow> server \<Rightarrow> server" where
  \<comment> \<open>\<^verbatim>\<open>delete clients[key]\<close> for every stored key (on close, on error, on a failed keep-alive)\<close>
  "unregisterClient userId st =
     st\<lparr>clients := foldl (\<lambda>m k. m(k := None)) (clients st) (storedKeys userId)\<rparr>"

subsection \<open>The dispatcher: \<^verbatim>\<open>sendEvent\<close>\<close>

definition keysToTry :: "js \<Rightarrow> js list" where
  "keysToTry uid =
     (let uidStr = JStr (js_String uid);
          uidInt = (case uid of JStr s \<Rightarrow> parseInt10 s | _ \<Rightarrow> uid);
          self = [uidStr, JStr (js_String uidInt), uidInt, parseInt10 (js_String uid),
                  JStr (js_String (parseInt10 (js_String uid)))]
      in map snd (filter (\<lambda>(index, k). k \<noteq> JNull \<and> k \<noteq> JUndefined \<and> \<not> js_isNaN k \<and>
                                        indexOf self k = int index) (enumerate 0 self)))"

fun findClient :: "(string \<rightharpoonup> nat) \<Rightarrow> js list \<Rightarrow> nat option" where
  \<comment> \<open>the loop \<^verbatim>\<open>for (const key of keysToTry) if (clients[key]) { target = clients[key]; break }\<close>\<close>
  "findClient cl [] = None"
| "findClient cl (key # keys) =
     (case cl (js_String key) of Some target \<Rightarrow> Some target | None \<Rightarrow> findClient cl keys)"

definition eventPayload :: "string \<Rightarrow> js \<Rightarrow> js" where
  \<comment> \<open>the frame written to the stream, before serialisation\<close>
  "eventPayload type data = JObj [(''type'', JStr type), (''message'', data), (''data'', data)]"

definition sendEvent :: "js \<Rightarrow> string \<Rightarrow> js \<Rightarrow> server \<Rightarrow> bool \<times> server" where
  "sendEvent uid type data st =
     (case findClient (clients st) (keysToTry uid) of
        Some target \<Rightarrow>
          if broken (sinks st target)
          then \<comment> \<open>the write raised: \<^verbatim>\<open>keysToTry.forEach(key => delete clients[key])\<close>\<close>
            (False, st\<lparr>clients := foldl (\<lambda>m key. m(js_String key := None)) (clients st) (keysToTry uid)\<rparr>)
          else
            (True, st\<lparr>sinks := (sinks st)(target := (sinks st target)
                      \<lparr>written := written (sinks st target) @ [eventPayload type data]\<rparr>)\<rparr>)
      | None \<Rightarrow> (False, st))"

subsection \<open>The signal queue: \<^verbatim>\<open>addCallSignal\<close> and \<^verbatim>\<open>getCallSignals\<close>\<close>

definition SIGNAL_TTL :: int where "SIGNAL_TTL = 60000"
definition MAX_AGE_FOR_READ :: int where "MAX_AGE_FOR_READ = 30000"
definition CLEAR_AGE :: int where "CLEAR_AGE = 30000"
definition READ_CLEAR_AGE :: int where "READ_CLEAR_AGE = 10000"

definition queue_of :: "server \<Rightarrow> js \<Rightarrow> signal list" where
  \<comment> \<open>the entries stored for a user; no array yet is no entry\<close>
  "queue_of st userId = (case callSignals st (js_String userId) of None \<Rightarrow> [] | Some q \<Rightarrow> q)"

definition addCallSignal :: "int \<Rightarrow> js \<Rightarrow> string \<times> js \<Rightarrow> server \<Rightarrow> server" where
  \<comment> \<open>the signal is \<^verbatim>\<open>{ type, data }\<close>; at most the last 50 entries are kept\<close>
  "addCallSignal now userId sig st =
     (let uid = js_String userId;
          q = (case callSignals st uid of None \<Rightarrow> [] | Some q \<Rightarrow> q);
          signalWithTimestamp = \<lparr>stype = fst sig, sdata = snd sig, timestamp = now,
                                   read = False, readAt = None\<rparr>;
          q1 = q @ [signalWithTimestamp]
      in st\<lparr>callSignals := (callSignals st)
              (uid \<mapsto> (if length q1 > 50 then drop (length q1 - 50) q1 else q1))\<rparr>)"

definition readAt_or_timestamp :: "signal \<Rightarrow> int" where
  \<comment> \<open>\<^verbatim>\<open>s.readAt || s.timestamp\<close>\<close>
  "readAt_or_timestamp s =
     (case readAt s of None \<Rightarrow> timestamp s | Some r \<Rightarrow> if r \<noteq> 0 then r else timestamp s)"

definition mark_read :: "int \<Rightarrow> signal \<Rightarrow> signal" where
  \<comment> \<open>the body of \<^verbatim>\<open>unreadSignals.forEach\<close>, applied to an unread entry\<close>
  "mark_read now s =
     (if now - timestamp s < MAX_AGE_FOR_READ then s\<lparr>read := True, readAt := Some now\<rparr> else s)"

definition retained :: "int \<Rightarrow> signal \<Rightarrow> bool" where
  \<comment> \<open>the last filter of \<^verbatim>\<open>getCallSignals\<close>\<close>
  "retained now s =
     (if read s then now - readAt_or_timestamp s < READ_CLEAR_AGE
      else now - timestamp s < CLEAR_AGE)"

definition getCallSignals :: "int \<Rightarrow> js \<Rightarrow> server \<Rightarrow> signal list \<times> server" where
  \<comment> \<open>The entries of \<^verbatim>\<open>unreadSignals\<close> are the objects of the queue, so marking them
     marks the queue's entries and the entries returned.\<close>
  "getCallSignals now userId st =
     (let uid = js_String userId in
      case callSignals st uid of
        None \<Rightarrow> ([], st\<lparr>callSignals := (callSignals st)(uid \<mapsto> [])\<rparr>)
      | Some q \<Rightarrow>
          (let q1 = filter (\<lambda>s. now - timestamp s < SIGNAL_TTL) q;
               unreadSignals = map (mark_read now) (filter (\<lambda>s. \<not> read s) q1);
               q2 = map (\<lambda>s. if \<not> read s then mark_read now s else s) q1;
               q3 = filter (retained now) q2
           in (unreadSignals, st\<lparr>callSignals := (callSignals st)(uid \<mapsto> q3)\<rparr>)))"

subsection \<open>The REST handlers that dispatch events\<close>

text \<open>
  A handler is modelled from the point where the bearer token has been verified: its
  first argument after the clock is the id the token carries. The other arguments are the
  fields of the request body. A handler returns its HTTP status and the new state.
\<close>

datatype response = Success | Failure nat

definition calls_initiate ::
    "int \<Rightarrow> js \<Rightarrow> js \<Rightarrow> js \<Rightarrow> js \<Rightarrow> js \<Rightarrow> server \<Rightarrow> response \<times> server" where
  \<comment> \<open>\<^verbatim>\<open>app.post('/api/calls/initiate')\<close>\<close>
  "calls_initiate now callerId userToCall signalData isVideoField fromUsername st =
     (if \<not> truthy userToCall \<or> \<not> truthy signalData then (Failure 400, st)
      else
        (let targetId = toIdInt userToCall;
             callerIdInt = toIdInt callerId;
             isVideo = js_or isVideoField (JBool False);
             payload = JObj [(''from'', callerIdInt),
                             (''signal'', JObj (put_prop ''isVideo'' isVideo (own_props signalData))),
                             (''name'', js_or fromUsername (JStr ''Someone''))];
             st1 = snd (sendEvent targetId ''call_user'' payload st)
         in (Success, addCallSignal now targetId (''call_user'', payload) st1)))"


definition validCandidate :: "js \<Rightarrow> js" where
  "validCandidate candidate =
     JObj [(''candidate'', js_or (getProp candidate ''candidate'') (JStr [])),
           (''sdpMid'', js_or (getProp candidate ''sdpMid'') JNull),
           (''sdpMLineIndex'',
              (if getProp candidate ''sdpMLineIndex'' \<noteq> JUndefined
               then getProp candidate ''sdpMLineIndex'' else JNull))]"

definition calls_ice_candidate :: "int \<Rightarrow> js \<Rightarrow> js \<Rightarrow> js \<Rightarrow> server \<Rightarrow> response \<times> server" where
  \<comment> \<open>\<^verbatim>\<open>app.post('/api/calls/ice-candidate')\<close>\<close>
  "calls_ice_candidate now senderId to candidate st =
     (if \<not> truthy to then (Failure 400, st)
      else if \<not> truthy candidate then (Success, st)
      else
        (let targetId = toIdInt to;
             vc = validCandidate candidate
         in if \<not> truthy (getProp vc ''candidate'') \<and> \<not> truthy (getProp vc ''sdpMid'') \<and>
               getProp vc ''sdpMLineIndex'' = JNull
            then (Success, st)
            else (Success, addCallSignal now targetId (''ice_candidate'', vc)
                             (snd (sendEvent targetId ''ice_candidate'' vc st)))))"


definition calls_poll :: "int \<Rightarrow> js \<Rightarrow> server \<Rightarrow> signal list \<times> server" where
  \<comment> \<open>\<^verbatim>\<open>app.get('/api/calls/poll')\<close>: the body of the response is the list returned\<close>
  "calls_poll now userId st = getCallSignals now (toIdInt userId) st"

fun sendToMembers :: "js list \<Rightarrow> js \<Rightarrow> server \<Rightarrow> bool \<times> server" where
  \<comment> \<open>\<^verbatim>\<open>g.members.forEach\<close> of the message handler; \<^verbatim>\<open>False\<close> when reading the id of a
     \<^verbatim>\<open>null\<close> member raised, which ends the loop\<close>
  "sendToMembers [] msg st = (True, st)"
| "sendToMembers (m # ms) msg st =
     (if m = JNull then (False, st)
      else
        (let memberId = (case m of JObj fs \<Rightarrow> js_or (getProp m ''id'') (getProp m ''_id'') | _ \<Rightarrow> m);
             memberIdInt = toIdInt memberId
         in sendToMembers ms msg (snd (sendEvent memberIdInt ''receive_message'' msg st))))"


section \<open>The client: transport selection\<close>

subsection \<open>Reconnection of the push subscription (\<^verbatim>\<open>connectSSE\<close>)\<close>

text \<open>
  \<^verbatim>\<open>reconnectAttempts\<close> and \<^verbatim>\<open>reconnectTimeout\<close> are variables of the effect that opens
  the subscription, shared by the handlers of every \<^verbatim>\<open>EventSource\<close> it creates.
  \<^verbatim>\<open>scheduled\<close> lists the delays of the reconnection timers set so far, oldest first.
\<close>

datatype readyState = CONNECTING | OPEN | CLOSED

record subscription =
  reconnectAttempts :: nat
  scheduled :: "int list"
  eventSourceRef :: bool

definition maxReconnectAttempts :: nat where
  "maxReconnectAttempts = 5"

definition subscription_start :: subscription where
  \<comment> \<open>after the first \<^verbatim>\<open>connectSSE()\<close> created its \<^verbatim>\<open>EventSource\<close>\<close>
  "subscription_start = \<lparr>reconnectAttempts = 0, scheduled = [], eventSourceRef = True\<rparr>"

definition scheduleReconnect :: "subscription \<Rightarrow> subscription" where
  \<comment> \<open>\<^verbatim>\<open>if (reconnectAttempts < maxReconnectAttempts) { reconnectAttempts++; ... setTimeout(connectSSE, delay) }\<close>,
     the same in \<^verbatim>\<open>onerror\<close> and in the \<^verbatim>\<open>catch\<close> block\<close>
  "scheduleReconnect s =
     (if reconnectAttempts s < maxReconnectAttempts
      then (let n = reconnectAttempts s + 1;
                delay = min (1000 * 2 ^ n) 30000
            in s\<lparr>reconnectAttempts := n, scheduled := scheduled s @ [delay]\<rparr>)
      else s)"

definition onerror :: "readyState \<Rightarrow> subscription \<Rightarrow> subscription" where
  \<comment> \<open>\<^verbatim>\<open>eventSource.onerror\<close>; the argument is \<^verbatim>\<open>eventSource.readyState\<close>\<close>
  "onerror rs s =
     (if rs = CLOSED then scheduleReconnect (s\<lparr>eventSourceRef := False\<rparr>) else s)"

definition onopen :: "subscription \<Rightarrow> subscription" where
  "onopen s = s\<lparr>reconnectAttempts := 0\<rparr>"

definition reconnectFired :: "subscription \<Rightarrow> subscription" where
  \<comment> \<open>the timer ran \<^verbatim>\<open>connectSSE()\<close>, which created a new \<^verbatim>\<open>EventSource\<close>\<close>
  "reconnectFired s = s\<lparr>eventSourceRef := True\<rparr>"

fun closedErrors :: "nat \<Rightarrow> subscription \<Rightarrow> subscription" where
  \<comment> \<open>up to \<^verbatim>\<open>k\<close> errors with the closed ready state in a row, no connection opening in
     between: after an error that set a timer the timer fires and the next connection
     fails; after an error that set none nothing more happens\<close>
  "closedErrors 0 s = s"
| "closedErrors (Suc k) s =
     (let s1 = onerror CLOSED s
      in if length (scheduled s) < length (scheduled s1)
         then closedErrors k (reconnectFired s1) else s1)"

subsection \<open>The polling loop for call signals (\<^verbatim>\<open>updatePollInterval\<close>)\<close>

text \<open>
  \<^verbatim>\<open>callPollIntervalRef\<close> holds the interval timer that runs \<^verbatim>\<open>pollCalls\<close>: its period and
  the time it is next due. \<^verbatim>\<open>polled\<close> lists the times at which \<^verbatim>\<open>pollCalls\<close> ran. A second
  interval timer, \<^verbatim>\<open>intervalCheck\<close>, runs \<^verbatim>\<open>updatePollInterval\<close> every 1000 ms.
\<close>

record polling =
  callPollIntervalRef :: "(int \<times> int) option"
  polled :: "int list"

definition updatePollInterval :: "int \<Rightarrow> bool \<Rightarrow> bool \<Rightarrow> polling \<Rightarrow> polling" where
  \<comment> \<open>at time \<^verbatim>\<open>now\<close>, with the values of \<^verbatim>\<open>callActiveRef.current\<close> and
     \<^verbatim>\<open>receivingCallRef.current\<close>: the old timer is cleared and a new one is set\<close>
  "updatePollInterval now active receiving p =
     (let interval = (if active \<or> receiving then 500 else 2000)
      in p\<lparr>callPollIntervalRef := Some (interval, now + interval)\<rparr>)"

function firePolls :: "bool \<Rightarrow> int \<Rightarrow> polling \<Rightarrow> polling" where
  \<comment> \<open>the runs of the poll timer that come before the timer check due at \<^verbatim>\<open>until\<close>; a run
     due at \<^verbatim>\<open>until\<close> itself comes before the check when \<^verbatim>\<open>tie\<close> holds\<close>
  "firePolls tie until p =
     (case callPollIntervalRef p of
        None \<Rightarrow> p
      | Some (period, due) \<Rightarrow>
          if 0 < period \<and> (due < until \<or> (tie \<and> due = until))
          then firePolls tie until
                 (p\<lparr>callPollIntervalRef := Some (period, due + period), polled := polled p @ [due]\<rparr>)
          else p)"
  by pat_completeness auto
termination
  by (relation "measure (\<lambda>(tie, until, p).
        case callPollIntervalRef p of None \<Rightarrow> 0 | Some (period, due) \<Rightarrow> nat (until - due + 1))")
     auto

declare firePolls.simps [simp del]

definition startPolling :: "int \<Rightarrow> bool \<Rightarrow> bool \<Rightarrow> polling" where
  \<comment> \<open>the effect body at time \<^verbatim>\<open>t0\<close>: \<^verbatim>\<open>pollCalls(); updatePollInterval();\<close>\<close>
  "startPolling t0 active receiving =
     updatePollInterval t0 active receiving
       \<lparr>callPollIntervalRef = None, polled = [t0]\<rparr>"

fun runChecks :: "bool \<Rightarrow> int \<Rightarrow> (bool \<times> bool) list \<Rightarrow> polling \<Rightarrow> polling" where
  \<comment> \<open>successive runs of \<^verbatim>\<open>intervalCheck\<close>, the first at time \<^verbatim>\<open>t\<close>; each element of the
     list is the pair of ref values the run reads\<close>
  "runChecks tie t [] p = p"
| "runChecks tie t ((active, receiving) # refs) p =
     runChecks tie (t + 1000) refs
       (updatePollInterval t active receiving (firePolls tie t p))"

definition pollSession :: "bool \<Rightarrow> int \<Rightarrow> bool \<times> bool \<Rightarrow> (bool \<times> bool) list \<Rightarrow> polling" where
  \<comment> \<open>polling started at \<^verbatim>\<open>t0\<close>, followed by the timer checks at \<^verbatim>\<open>t0 + 1000\<close>,
     \<^verbatim>\<open>t0 + 2000\<close>, ...\<close>
  "pollSession tie t0 refs0 refs =
     runChecks tie (t0 + 1000) refs (startPolling t0 (fst refs0) (snd refs0))"

section \<open>The client: call session\<close>

text \<open>
  \<^verbatim>\<open>ChatDashboard\<close> is a React function component. Its state variables
  (\<^verbatim>\<open>callActive\<close>, \<^verbatim>\<open>receivingCall\<close>, \<^verbatim>\<open>caller\<close>, ...) are constants of one render: a
  function created during a render reads the values of that render for as long as it is
  kept, while a setter changes the value the next render will see. Refs
  (\<^verbatim>\<open>callTargetRef.current\<close>, ...) are mutable cells read at the time of the call. So every
  function of the component takes the render it was created in, a \<^verbatim>\<open>render\<close>, beside
  the client state, whose field \<^verbatim>\<open>current\<close> is the state the setters have produced.

  The handlers of the push subscription and the polling loop are created inside effects
  with the dependency list \<^verbatim>\<open>[token]\<close> (lines 626-959 and 1012-1218): they are created
  once, when the component is mounted with its token, and keep the render of that moment.
  The handlers of the buttons (\<^verbatim>\<open>callUser\<close>, \<^verbatim>\<open>answerCall\<close>, \<^verbatim>\<open>leaveCall\<close>) are taken from
  the latest render each time the component is drawn.
\<close>

record render =
  callActive :: bool
  receivingCall :: bool
  caller :: js
  callerSignal :: js
  callStatus :: string
  isVideoCall :: bool
  localStream :: "nat option"
  showCallEnding :: bool
  selectedUser :: js

datatype connRef = ConnUndefined | ConnNull | Conn nat

record peer =
  onconnectionstatechange :: bool
  oniceconnectionstatechange :: bool
  onicegatheringstatechange :: bool
  ontrack :: bool
  onicecandidate :: bool
  closed :: bool
  remoteDescription :: js
  iceCandidates :: "js list"
  iceRestarts :: nat

datatype operation =
    MarkEnded | DetachHandlers nat | ShowStatus string | StopTracks nat | ClearVideo
  | ClosePeer nat | ScheduleReset | ResetSession | PostEndCall js

record client =
  current :: render
  callEndedIntentionallyRef :: bool
  callTargetRef :: js
  connectionRef :: connRef
  callActiveRef :: bool
  receivingCallRef :: bool
  peers :: "nat \<Rightarrow> peer"
  tracks :: "nat \<Rightarrow> bool list"
  myVideo :: "nat option"
  userVideo :: "nat option"
  timeouts :: "int list"
  requests :: "(string \<times> js) list"
  oplog :: "operation list"

text \<open>
  \<^verbatim>\<open>peers\<close> is the store of peer connections (a handler field tells whether a handler
  is attached), \<^verbatim>\<open>tracks\<close> the store of media streams (one flag per track: live or
  stopped), \<^verbatim>\<open>myVideo\<close> and \<^verbatim>\<open>userVideo\<close> the \<^verbatim>\<open>srcObject\<close> of the two media elements,
  \<^verbatim>\<open>timeouts\<close> the delays of the pending reset timers, \<^verbatim>\<open>requests\<close> the posts sent to the
  server and \<^verbatim>\<open>oplog\<close> the operations of the termination code in the order they ran.
\<close>

definition mount_render :: render where
  \<comment> \<open>the initial values given to \<^verbatim>\<open>useState\<close>\<close>
  "mount_render = \<lparr>callActive = False, receivingCall = False, caller = JNull,
     callerSignal = JNull, callStatus = [], isVideoCall = False, localStream = None,
     showCallEnding = False, selectedUser = JNull\<rparr>"

definition new_peer :: peer where
  "new_peer = \<lparr>onconnectionstatechange = False, oniceconnectionstatechange = False,
     onicegatheringstatechange = False, ontrack = False, onicecandidate = False,
     closed = False, remoteDescription = JUndefined, iceCandidates = [], iceRestarts = 0\<rparr>"

definition mounted_client :: client where
  \<comment> \<open>\<^verbatim>\<open>useRef()\<close> without an argument holds \<^verbatim>\<open>undefined\<close>\<close>
  "mounted_client = \<lparr>current = mount_render, callEndedIntentionallyRef = False,
     callTargetRef = JNull, connectionRef = ConnUndefined, callActiveRef = False,
     receivingCallRef = False, peers = (\<lambda>p. new_peer), tracks = (\<lambda>s. []),
     myVideo = None, userVideo = None, timeouts = [], requests = [], oplog = []\<rparr>"

definition setCallStatus :: "string \<Rightarrow> client \<Rightarrow> client" where
  "setCallStatus msg c = c\<lparr>current := (current c)\<lparr>callStatus := msg\<rparr>\<rparr>"

definition logOp :: "operation \<Rightarrow> client \<Rightarrow> client" where
  "logOp x c = c\<lparr>oplog := oplog c @ [x]\<rparr>"

subsection \<open>Termination: \<^verbatim>\<open>endCallCleanup\<close>\<close>

definition detachHandlers :: "client \<Rightarrow> client" where
  \<comment> \<open>\<^verbatim>\<open>if (connectionRef.current) { connectionRef.current.on... = null; ... }\<close>\<close>
  "detachHandlers c =
     (case connectionRef c of
        Conn p \<Rightarrow>
          logOp (DetachHandlers p)
            (c\<lparr>peers := (peers c)(p := (peers c p)
                 \<lparr>onconnectionstatechange := False, oniceconnectionstatechange := False,
                  onicegatheringstatechange := False, ontrack := False,
                  onicecandidate := False\<rparr>)\<rparr>)
      | _ \<Rightarrow> c)"

definition stopLocalStream :: "render \<Rightarrow> client \<Rightarrow> client" where
  \<comment> \<open>\<^verbatim>\<open>if (localStream) { localStream.getTracks().forEach(track => track.stop()); setLocalStream(null); }\<close>\<close>
  "stopLocalStream r c =
     (case localStream r of
        Some s \<Rightarrow>
          logOp (StopTracks s)
            (c\<lparr>tracks := (tracks c)(s := map (\<lambda>live. False) (tracks c s)),
               current := (current c)\<lparr>localStream := None\<rparr>\<rparr>)
      | None \<Rightarrow> c)"

definition clearVideoElements :: "client \<Rightarrow> client" where
  "clearVideoElements c = logOp ClearVideo (c\<lparr>myVideo := None, userVideo := None\<rparr>)"

definition closeConnection :: "client \<Rightarrow> client" where
  \<comment> \<open>\<^verbatim>\<open>if (connectionRef.current) { connectionRef.current.close(); connectionRef.current = null; }\<close>\<close>
  "closeConnection c =
     (case connectionRef c of
        Conn p \<Rightarrow>
          logOp (ClosePeer p)
            (c\<lparr>peers := (peers c)(p := (peers c p)\<lparr>closed := True\<rparr>), connectionRef := ConnNull\<rparr>)
      | _ \<Rightarrow> c)"

definition resetCallState :: "client \<Rightarrow> client" where
  \<comment> \<open>the refs first, then the state, then the flag and the stored target\<close>
  "resetCallState c =
     logOp ResetSession
       (c\<lparr>callActiveRef := False, receivingCallRef := False,
          current := (current c)\<lparr>callActive := False, receivingCall := False, callStatus := [],
                                  caller := JNull, isVideoCall := False, showCallEnding := False\<rparr>,
          callEndedIntentionallyRef := False, callTargetRef := JNull\<rparr>)"

definition endCallCleanup :: "render \<Rightarrow> string \<Rightarrow> client \<Rightarrow> client" where
  "endCallCleanup r statusMessage c =
     (let c1 = logOp MarkEnded (c\<lparr>callEndedIntentionallyRef := True\<rparr>);
          c2 = detachHandlers c1
      in if statusMessage \<noteq> []
         then
           (let c3 = logOp (ShowStatus statusMessage)
                       (c2\<lparr>current := (current c2)\<lparr>callStatus := statusMessage,
                                                   showCallEnding := True\<rparr>\<rparr>);
                c4 = closeConnection (clearVideoElements (stopLocalStream r c3))
            in logOp ScheduleReset (c4\<lparr>timeouts := timeouts c4 @ [3000]\<rparr>))
         else closeConnection (clearVideoElements (stopLocalStream r (resetCallState c2))))"

definition resetTimeoutFired :: "client \<Rightarrow> client" where
  \<comment> \<open>the callback of \<^verbatim>\<open>setTimeout(..., 3000)\<close> in \<^verbatim>\<open>endCallCleanup\<close> runs\<close>
  "resetTimeoutFired c = resetCallState (c\<lparr>timeouts := drop 1 (timeouts c)\<rparr>)"

definition leaveCall :: "render \<Rightarrow> client \<Rightarrow> client" where
  \<comment> \<open>the hang-up and decline buttons\<close>
  "leaveCall r c =
     (let otherId = js_or (js_or (js_or (callTargetRef c) (getProp (selectedUser r) ''_id''))
                            (getProp (selectedUser r) ''id'')) (caller r);
          isReceiver = (receivingCall r \<and> \<not> callActive r);
          c1 = (if truthy otherId
                then logOp (PostEndCall otherId)
                       (c\<lparr>requests := requests c @ [(''/api/calls/end'', JObj [(''to'', otherId)])]\<rparr>)
                else c);
          statusMessage = (if isReceiver then ''Call declined'' else ''Call ended'')
      in endCallCleanup r statusMessage c1)"

definition on_end_call :: "render \<Rightarrow> client \<Rightarrow> client" where
  \<comment> \<open>the \<^verbatim>\<open>end_call\<close> branch, the same in \<^verbatim>\<open>eventSource.onmessage\<close> and in \<^verbatim>\<open>pollCalls\<close>\<close>
  "on_end_call r c =
     (let isCurrentlyCaller = (callActive r \<and> \<not> receivingCall r);
          isCurrentlyReceiver = (receivingCall r \<and> \<not> callActive r);
          c1 = logOp MarkEnded (c\<lparr>callEndedIntentionallyRef := True\<rparr>);
          c2 = c1\<lparr>current := (current c1)\<lparr>showCallEnding := True\<rparr>\<rparr>;
          statusMessage = (if isCurrentlyReceiver \<and> \<not> callActive r then ''Call declined by caller''
                           else ''Call ended by other party'');
          c3 = detachHandlers (setCallStatus statusMessage c2)
      in endCallCleanup r statusMessage c3)"

subsection \<open>Starting and answering a call: \<^verbatim>\<open>callUser\<close>, \<^verbatim>\<open>answerCall\<close>\<close>

text \<open>
  Each of the two functions has a synchronous part and a continuation that runs when
  \<^verbatim>\<open>getUserMedia\<close> has resolved and the offer or answer has been created. The continuation
  is given the address of the new stream, the number of its tracks, the address of the
  new peer connection and the session description created.
\<close>

definition callUser :: "render \<Rightarrow> bool \<Rightarrow> client \<Rightarrow> client" where
  "callUser r videoEnabled c =
     (if \<not> truthy (selectedUser r) then c
      else c\<lparr>callTargetRef := js_or (getProp (selectedUser r) ''_id'') (getProp (selectedUser r) ''id''),
             current := (current c)\<lparr>isVideoCall := videoEnabled, callActive := True,
               callStatus := ''Calling '' @ js_String (getProp (selectedUser r) ''username'') @ ''...''\<rparr>\<rparr>)"

definition withNewPeer :: "nat \<Rightarrow> client \<Rightarrow> client" where
  \<comment> \<open>a new \<^verbatim>\<open>RTCPeerConnection\<close> with the five handlers attached, stored in \<^verbatim>\<open>connectionRef\<close>\<close>
  "withNewPeer p c =
     c\<lparr>peers := (peers c)(p := new_peer\<lparr>onconnectionstatechange := True,
            oniceconnectionstatechange := True, onicegatheringstatechange := True,
            ontrack := True, onicecandidate := True\<rparr>),
       connectionRef := Conn p\<rparr>"

definition withLocalStream :: "bool \<Rightarrow> nat \<Rightarrow> nat \<Rightarrow> client \<Rightarrow> client" where
  \<comment> \<open>\<^verbatim>\<open>setLocalStream(stream)\<close>, and the local media element for a video call\<close>
  "withLocalStream video stream ntracks c =
     c\<lparr>current := (current c)\<lparr>localStream := Some stream\<rparr>,
       tracks := (tracks c)(stream := replicate ntracks True),
       myVideo := (if video then Some stream else myVideo c)\<rparr>"

definition callUser_onMedia :: "render \<Rightarrow> bool \<Rightarrow> nat \<Rightarrow> nat \<Rightarrow> nat \<Rightarrow> js \<Rightarrow> client \<Rightarrow> client" where
  "callUser_onMedia r videoEnabled stream ntracks p offer c =
     (let c1 = withNewPeer p (withLocalStream videoEnabled stream ntracks c)
      in c1\<lparr>requests := requests c1 @
            [(''/api/calls/initiate'',
              JObj [(''userToCall'', js_or (getProp (selectedUser r) ''_id'') (getProp (selectedUser r) ''id'')),
                    (''signalData'', offer), (''isVideo'', JBool videoEnabled)])]\<rparr>)"

definition answerCall :: "render \<Rightarrow> client \<Rightarrow> client" where
  "answerCall r c =
     (let videoCall = truthy (js_or (getProp (callerSignal r) ''isVideo'') (JBool False))
      in c\<lparr>callActiveRef := True, receivingCallRef := False,
            current := (current c)\<lparr>isVideoCall := videoCall, callActive := True,
              receivingCall := False, callStatus := ''Call in progress''\<rparr>\<rparr>)"

definition answerCall_onMedia :: "render \<Rightarrow> nat \<Rightarrow> nat \<Rightarrow> nat \<Rightarrow> js \<Rightarrow> client \<Rightarrow> client" where
  "answerCall_onMedia r stream ntracks p answer c =
     (let videoCall = truthy (js_or (getProp (callerSignal r) ''isVideo'') (JBool False));
          c1 = withNewPeer p (withLocalStream videoCall stream ntracks c);
          c2 = c1\<lparr>peers := (peers c1)(p := (peers c1 p)\<lparr>remoteDescription := callerSignal r\<rparr>)\<rparr>
      in c2\<lparr>requests := requests c2 @
            [(''/api/calls/answer'', JObj [(''signal'', answer), (''to'', caller r)])]\<rparr>)"

definition onMediaError :: "render \<Rightarrow> client \<Rightarrow> client" where
  \<comment> \<open>\<^verbatim>\<open>getUserMedia\<close> was rejected: \<^verbatim>\<open>endCallCleanup()\<close> with no message\<close>
  "onMediaError r c = endCallCleanup r [] c"

subsection \<open>Connection state callbacks\<close>

definition restartIce :: "nat \<Rightarrow> client \<Rightarrow> client" where
  "restartIce p c = c\<lparr>peers := (peers c)(p := (peers c p)\<lparr>iceRestarts := Suc (iceRestarts (peers c p))\<rparr>)\<rparr>"

definition caller_onconnectionstatechange :: "render \<Rightarrow> nat \<Rightarrow> string \<Rightarrow> client \<Rightarrow> client" where
  \<comment> \<open>\<^verbatim>\<open>peer.onconnectionstatechange\<close> set by \<^verbatim>\<open>callUser\<close>; the string is \<^verbatim>\<open>peer.connectionState\<close>\<close>
  "caller_onconnectionstatechange r p connectionState c =
     (if callEndedIntentionallyRef c \<or> showCallEnding r then c
      else if connectionState = ''connected'' then setCallStatus ''Call in progress'' c
      else if connectionState = ''disconnected'' then
        (if callActive r \<or> receivingCall r then setCallStatus ''Connection lost...'' c else c)
      else if connectionState = ''failed'' then
        (if callActive r \<or> receivingCall r
         then restartIce p (setCallStatus ''Connection failed - trying to reconnect...'' c) else c)
      else c)"

definition caller_oniceconnectionstatechange :: "render \<Rightarrow> nat \<Rightarrow> string \<Rightarrow> client \<Rightarrow> client" where
  "caller_oniceconnectionstatechange r p iceConnectionState c =
     (if callEndedIntentionallyRef c \<or> showCallEnding r then c
      else if iceConnectionState = ''failed'' then
        (if callActive r \<or> receivingCall r
         then restartIce p (setCallStatus ''Connection failed - check network'' c) else c)
      else if iceConnectionState = ''disconnected'' then
        (if callActive r \<or> receivingCall r then setCallStatus ''Connection lost...'' c else c)
      else if iceConnectionState = ''connected'' then setCallStatus ''Call in progress'' c
      else c)"

definition answerer_onconnectionstatechange :: "render \<Rightarrow> nat \<Rightarrow> string \<Rightarrow> client \<Rightarrow> client" where
  \<comment> \<open>\<^verbatim>\<open>peer.onconnectionstatechange\<close> set by \<^verbatim>\<open>answerCall\<close>\<close>
  "answerer_onconnectionstatechange r p connectionState c =
     (if callEndedIntentionallyRef c \<or> showCallEnding r then c
      else if connectionState = ''connected'' then setCallStatus ''Call in progress'' c
      else if connectionState = ''connecting'' then
        (if callStatus r \<noteq> ''Call in progress'' then setCallStatus ''Call in progress'' c else c)
      else if connectionState = ''disconnected'' then
        (if callActive r \<or> receivingCall r then setCallStatus ''Connection lost...'' c else c)
      else if connectionState = ''failed'' then
        (if callActive r \<or> receivingCall r
         then restartIce p (setCallStatus ''Connection failed - trying to reconnect...'' c) else c)
      else c)"

definition answerer_oniceconnectionstatechange :: "render \<Rightarrow> nat \<Rightarrow> string \<Rightarrow> client \<Rightarrow> client" where
  \<comment> \<open>on \<^verbatim>\<open>failed\<close> the restart is deferred by a timer of 1000 ms, see \<^verbatim>\<open>restartTimerFired\<close>\<close>
  "answerer_oniceconnectionstatechange r p iceConnectionState c =
     (if callEndedIntentionallyRef c \<or> showCallEnding r then c
      else if iceConnectionState = ''failed'' then
        (if callActive r \<or> receivingCall r then setCallStatus ''Connection failed - retrying...'' c else c)
      else if iceConnectionState = ''disconnected'' then
        (if callActive r \<or> receivingCall r then setCallStatus ''Connection lost...'' c else c)
      else if iceConnectionState = ''connected'' then setCallStatus ''Call in progress'' c
      else c)"

definition restartTimerFired :: "nat \<Rightarrow> string \<Rightarrow> client \<Rightarrow> client" where
  "restartTimerFired p iceConnectionState c =
     (if iceConnectionState = ''failed'' \<and> \<not> callEndedIntentionallyRef c then restartIce p c else c)"

subsection \<open>Incoming events: \<^verbatim>\<open>eventSource.onmessage\<close> and \<^verbatim>\<open>pollCalls\<close>\<close>

definition acceptIncoming :: "js \<Rightarrow> js \<Rightarrow> js \<Rightarrow> client \<Rightarrow> client" where
  \<comment> \<open>what both \<^verbatim>\<open>call_user\<close> branches do with the caller id, the caller name and the offer\<close>
  "acceptIncoming callerId callerName sig c =
     c\<lparr>callTargetRef := callerId, receivingCallRef := True,
       current := (current c)\<lparr>receivingCall := True, caller := callerId, callerSignal := sig,
                               callStatus := js_String callerName @ '' is calling...''\<rparr>\<rparr>"

definition sse_call_user :: "render \<Rightarrow> js \<Rightarrow> client \<Rightarrow> client" where
  "sse_call_user r data c =
     (let hasActiveConnection = (connectionRef c \<noteq> ConnNull \<and> callActive r);
          isActuallyReceiving = (receivingCall r \<and> caller r \<noteq> JNull \<and> \<not> callActive r)
      in if hasActiveConnection then c
         else if isActuallyReceiving then c
         else acceptIncoming (getProp data ''from'')
                (js_or (js_or (getProp data ''name'') (getProp (getProp data ''signal'') ''name''))
                   (JStr ''Someone''))
                (getProp data ''signal'') c)"

definition poll_call_user :: "render \<Rightarrow> js \<Rightarrow> client \<Rightarrow> client option" where
  \<comment> \<open>\<^verbatim>\<open>None\<close>: reading \<^verbatim>\<open>signal.data.from\<close> raised because \<^verbatim>\<open>signal.data\<close> is missing\<close>
  "poll_call_user r sig c =
     (let hasActiveConnection = (connectionRef c \<noteq> ConnNull \<and> callActive r);
          isActuallyReceiving = (receivingCall r \<and> caller r \<noteq> JNull \<and> \<not> callActive r);
          d = getProp sig ''data''
      in if hasActiveConnection then Some c
         else if isActuallyReceiving then Some c
         else if d = JUndefined \<or> d = JNull then None
         else Some (acceptIncoming (getProp d ''from'')
                (js_or (js_or (getProp d ''name'') (getProp (getProp d ''signal'') ''name''))
                   (JStr ''Someone''))
                (getProp d ''signal'') c))"

definition on_call_accepted :: "js \<Rightarrow> client \<Rightarrow> client" where
  \<comment> \<open>the argument is \<^verbatim>\<open>data.signal\<close> for the subscription and \<^verbatim>\<open>signal.data\<close> for a poll\<close>
  "on_call_accepted answer c =
     (let c1 = setCallStatus ''Call in progress'' c
      in case connectionRef c1 of
           Conn p \<Rightarrow> c1\<lparr>peers := (peers c1)(p := (peers c1 p)\<lparr>remoteDescription := answer\<rparr>)\<rparr>
         | _ \<Rightarrow> c1)"

definition on_ice_candidate :: "(js \<Rightarrow> bool) \<Rightarrow> js \<Rightarrow> client \<Rightarrow> client" where
  \<comment> \<open>The argument is \<^verbatim>\<open>data.candidate\<close> for the subscription and \<^verbatim>\<open>signal.data\<close> for a
     poll. \<^verbatim>\<open>accepts\<close> tells whether the browser takes the candidate: when
     \<^verbatim>\<open>new RTCIceCandidate\<close> or \<^verbatim>\<open>addIceCandidate\<close> raises, the \<^verbatim>\<open>catch\<close> block logs the error.\<close>
  "on_ice_candidate accepts candidate c =
     (case connectionRef c of
        Conn p \<Rightarrow>
          if truthy candidate then
            (if candidate = JNull \<or> candidate = JUndefined then c
             else if \<not> truthy (getProp candidate ''candidate'') \<and>
                     \<not> truthy (getProp candidate ''sdpMid'') \<and>
                     getProp candidate ''sdpMLineIndex'' = JUndefined then c
             else if accepts candidate
               then c\<lparr>peers := (peers c)(p := (peers c p)
                       \<lparr>iceCandidates := iceCandidates (peers c p) @ [candidate]\<rparr>)\<rparr>
               else c)
          else c
      | _ \<Rightarrow> c)"

definition sse_onmessage :: "(js \<Rightarrow> bool) \<Rightarrow> render \<Rightarrow> js \<Rightarrow> client \<Rightarrow> client" where
  \<comment> \<open>\<^verbatim>\<open>eventSource.onmessage\<close> on the parsed frame; a \<^verbatim>\<open>receive_message\<close> frame changes the
     message list only, which is not part of the call session\<close>
  "sse_onmessage accepts r data c =
     (let t = getProp data ''type''
      in if t = JStr ''receive_message'' then c
         else if t = JStr ''call_user'' then sse_call_user r data c
         else if t = JStr ''call_accepted'' then on_call_accepted (getProp data ''signal'') c
         else if t = JStr ''ice_candidate'' then on_ice_candidate accepts (getProp data ''candidate'') c
         else if t = JStr ''end_call'' then on_end_call r c
         else c)"

definition poll_signal :: "(js \<Rightarrow> bool) \<Rightarrow> render \<Rightarrow> js \<Rightarrow> client \<Rightarrow> client option" where
  \<comment> \<open>the body of \<^verbatim>\<open>signals.forEach\<close> in \<^verbatim>\<open>pollCalls\<close>\<close>
  "poll_signal accepts r sig c =
     (let t = getProp sig ''type''
      in if t = JStr ''call_user'' then poll_call_user r sig c
         else if t = JStr ''call_accepted'' then Some (on_call_accepted (getProp sig ''data'') c)
         else if t = JStr ''ice_candidate'' then Some (on_ice_candidate accepts (getProp sig ''data'') c)
         else if t = JStr ''end_call'' then Some (on_end_call r c)
         else Some c)"

fun poll_signals :: "(js \<Rightarrow> bool) \<Rightarrow> render \<Rightarrow> js list \<Rightarrow> client \<Rightarrow> client" where
  \<comment> \<open>\<^verbatim>\<open>signals.forEach\<close> inside the \<^verbatim>\<open>try\<close> of \<^verbatim>\<open>pollCalls\<close>: an exception ends the loop and
     is logged\<close>
  "poll_signals accepts r [] c = c"
| "poll_signals accepts r (sig # sigs) c =
     (case poll_signal accepts r sig c of
        None \<Rightarrow> c
      | Some c1 \<Rightarrow> poll_signals accepts r sigs c1)"

definition signal_json :: "signal \<Rightarrow> js" where
  \<comment> \<open>an entry of the signal queue as the poll response carries it\<close>
  "signal_json s =
     JObj ([(''type'', JStr (stype s)), (''data'', sdata s), (''timestamp'', JNum (timestamp s))]
           @ (if read s then [(''read'', JBool True)] else [])
           @ (case readAt s of Some t \<Rightarrow> [(''readAt'', JNum t)] | None \<Rightarrow> []))"

subsection \<open>Sample server states\<close>

definition two_signal_server :: server where
  "two_signal_server =
     addCallSignal 5000 (JNum 7) (''ice_candidate'', JNull)
       (snd (getCallSignals 2000 (JNum 7)
          (addCallSignal 1000 (JNum 7) (''call_user'', JNull) empty_server)))"

definition one_signal_server :: server where
  "one_signal_server = addCallSignal 0 (JNum 7) (''call_user'', JNull) empty_server"

definition broken_client_server :: server where
  "broken_client_server =
     registerClient (JNum 7) 1 (empty_server\<lparr>sinks := (\<lambda>a. \<lparr>broken = True, written = []\<rparr>)\<rparr>)"

subsection \<open>Sample calls\<close>

text \<open>
  User 7 calls user 2 at time 1000 and user 9 calls user 2 at time 2000; the client of
  user 2 polls at 1500 and at 2500, and answers the first call. \<^verbatim>\<open>leaveCall_target\<close> is
  the fallback order of the hang-up target as a chain of tests.
\<close>

definition offer_from :: "int \<Rightarrow> js" where
  "offer_from n = JObj [(''type'', JStr ''offer''), (''sdp'', JStr (''sdp-of-'' @ string_of_int n))]"

definition two_calls_server :: server where
  "two_calls_server =
     snd (calls_initiate 1000 (JNum 7) (JNum 2) (offer_from 7) JUndefined (JStr ''ann'') empty_server)"

definition first_poll_response :: "js list" where
  "first_poll_response = map signal_json (fst (calls_poll 1500 (JNum 2) two_calls_server))"

definition second_poll_response :: "js list" where
  "second_poll_response =
     map signal_json (fst (calls_poll 2500 (JNum 2)
       (snd (calls_initiate 2000 (JNum 9) (JNum 2) (offer_from 9) JUndefined (JStr ''bob'')
          (snd (calls_poll 1500 (JNum 2) two_calls_server))))))"

definition ringing_client :: client where
  "ringing_client = poll_signals (\<lambda>c. True) mount_render first_poll_response mounted_client"

definition in_call_client :: client where
  "in_call_client =
     answerCall_onMedia (current ringing_client) 1 2 1 (JObj [(''type'', JStr ''answer'')])
       (answerCall (current ringing_client) ringing_client)"

definition leaveCall_target :: "render \<Rightarrow> client \<Rightarrow> js" where
  "leaveCall_target r c =
     (if truthy (callTargetRef c) then callTargetRef c
      else if truthy (getProp (selectedUser r) ''_id'') then getProp (selectedUser r) ''_id''
      else if truthy (getProp (selectedUser r) ''id'') then getProp (selectedUser r) ''id''
      else caller r)"

definition remote_end_frame :: js where
  "remote_end_frame = eventPayload ''end_call'' (JObj [(''from'', JNum 7)])"

definition remote_end_signal :: js where
  "remote_end_signal = JObj [(''type'', JStr ''end_call''), (''data'', JObj [(''from'', JNum 7)])]"

definition sample_candidate :: js where
  "sample_candidate = JObj [(''candidate'', JStr ''candidate:1 1 udp 1 10.0.0.1 5000 typ host''),
                            (''sdpMid'', JStr ''0''), (''sdpMLineIndex'', JNum 0)]"

text \<open>
  User 2 holds an open push subscription (response object 1) when user 7 posts
  \<^verbatim>\<open>sample_candidate\<close> for it at time 3000; the client of user 2 polls at 3500.
  \<^verbatim>\<open>pushed_ice_frames\<close> is what the server wrote to the subscription of user 2 and
  \<^verbatim>\<open>polled_ice_signals\<close> is the body of the poll response.
\<close>

definition ice_relay_server :: server where
  "ice_relay_server =
     snd (calls_ice_candidate 3000 (JNum 7) (JNum 2) sample_candidate
            (registerClient (JNum 2) 1 empty_server))"

definition pushed_ice_frames :: "js list" where
  "pushed_ice_frames = written (sinks ice_relay_server 1)"

definition polled_ice_signals :: "js list" where
  "polled_ice_signals = map signal_json (fst (calls_poll 3500 (JNum 2) ice_relay_server))"

section \<open>Properties of the signal queue\<close>

lemma queue_of_getCallSignals:
  "queue_of (snd (getCallSignals now userId st)) userId =
     filter (retained now) (map (\<lambda>s. if \<not> read s then mark_read now s else s)
       (filter (\<lambda>s. now - timestamp s < SIGNAL_TTL) (queue_of st userId)))"
  by (simp add: getCallSignals_def queue_of_def Let_def split: option.splits)

lemma fst_getCallSignals:
  "fst (getCallSignals now userId st) =
     map (mark_read now) (filter (\<lambda>s. \<not> read s)
       (filter (\<lambda>s. now - timestamp s < SIGNAL_TTL) (queue_of st userId)))"
  by (simp add: getCallSignals_def queue_of_def Let_def split: option.splits)

lemma timestamp_mark_read [simp]: "timestamp (mark_read now s) = timestamp s"
  by (simp add: mark_read_def)

lemma retained_unread_marked:
  assumes "\<not> read s" and "retained now (mark_read now s)"
  shows "read (mark_read now s)"
  using assms by (auto simp: mark_read_def retained_def MAX_AGE_FOR_READ_def CLEAR_AGE_def split: if_splits)

lemma queue_after_poll_all_read:
  assumes "s \<in> set (queue_of (snd (getCallSignals now userId st)) userId)"
  shows "read s \<and> now - readAt_or_timestamp s < READ_CLEAR_AGE"
proof -
  from assms obtain s0 where s0: "s0 \<in> set (queue_of st userId)"
    and s: "s = (if \<not> read s0 then mark_read now s0 else s0)" and ret: "retained now s"
    by (auto simp: queue_of_getCallSignals)
  have "read s"
  proof (cases "read s0")
    case True
    then show ?thesis using s by simp
  next
    case False
    then show ?thesis using s ret retained_unread_marked [of s0 now] by simp
  qed
  then show ?thesis using ret by (simp add: retained_def)
qed

lemma string_of_nat_digit: "n < 10 \<Longrightarrow> string_of_nat n = [digit_char n]"
  by (simp add: string_of_nat.simps)

lemma js_String_7 [simp]: "js_String (JNum 7) = ''7''"
  by (simp add: string_of_int_def string_of_nat_digit digit_char_def)

lemma queue_two_signal_server:
  "queue_of two_signal_server (JNum 7) =
     [\<lparr>stype = ''call_user'', sdata = JNull, timestamp = 1000, read = True, readAt = Some 2000\<rparr>,
      \<lparr>stype = ''ice_candidate'', sdata = JNull, timestamp = 5000, read = False, readAt = None\<rparr>]"
  by (simp add: two_signal_server_def addCallSignal_def empty_server_def getCallSignals_def
      queue_of_def Let_def mark_read_def retained_def readAt_or_timestamp_def
      SIGNAL_TTL_def MAX_AGE_FOR_READ_def READ_CLEAR_AGE_def CLEAR_AGE_def)

lemma poll_two_signal_server:
  "fst (getCallSignals 8000 (JNum 7) two_signal_server) =
     [\<lparr>stype = ''ice_candidate'', sdata = JNull, timestamp = 5000, read = True, readAt = Some 8000\<rparr>]"
  "queue_of (snd (getCallSignals 8000 (JNum 7) two_signal_server)) (JNum 7) =
     [\<lparr>stype = ''call_user'', sdata = JNull, timestamp = 1000, read = True, readAt = Some 2000\<rparr>,
      \<lparr>stype = ''ice_candidate'', sdata = JNull, timestamp = 5000, read = True, readAt = Some 8000\<rparr>]"
  by (simp_all add: fst_getCallSignals queue_of_getCallSignals queue_two_signal_server
      mark_read_def retained_def readAt_or_timestamp_def
      SIGNAL_TTL_def MAX_AGE_FOR_READ_def READ_CLEAR_AGE_def CLEAR_AGE_def)

lemma second_drain_empty:
  "fst (getCallSignals now2 userId (snd (getCallSignals now userId st))) = []"
proof -
  have "\<forall>s \<in> set (queue_of (snd (getCallSignals now userId st)) userId). read s"
    using queue_after_poll_all_read by blast
  then show ?thesis
    by (simp add: fst_getCallSignals filter_empty_conv)
qed

lemma in_queue_after_poll:
  assumes "s \<in> set (queue_of (snd (getCallSignals now userId st)) userId)"
  shows "\<exists>s0 \<in> set (queue_of st userId).
           s = (if \<not> read s0 then mark_read now s0 else s0) \<and> retained now s"
  using assms by (auto simp: queue_of_getCallSignals)

lemma queue_after_second_poll:
  assumes "s \<in> set (queue_of (snd (getCallSignals now2 userId (snd (getCallSignals now userId st)))) userId)"
  shows "now2 - readAt_or_timestamp s < READ_CLEAR_AGE"
proof -
  let ?st1 = "snd (getCallSignals now userId st)"
  from in_queue_after_poll [OF assms] obtain s0 where s0: "s0 \<in> set (queue_of ?st1 userId)"
    and s: "s = (if \<not> read s0 then mark_read now2 s0 else s0)" and ret: "retained now2 s"
    by blast
  have "read s0" using queue_after_poll_all_read [OF s0] by simp
  then show ?thesis using s ret by (simp add: retained_def)
qed

text \<open>
  Claim C2. A poll returns only entries that were unread and are younger than 60 seconds
  (\<open>now - timestamp < 60000\<close>), and when a poll returns every entry left in the user's
  queue is read and was read less than 10 seconds ago: a read entry is discarded by the
  first poll that runs 10 seconds or more after its \<^verbatim>\<open>readAt\<close>. So no poll returns an
  entry outside these windows.
\<close>

theorem C2_poll_windows:
  "(\<forall>s \<in> set (fst (getCallSignals now userId st)).
       now - timestamp s < 60000 \<and>
       (\<exists>s0 \<in> set (queue_of st userId). \<not> read s0 \<and> s = mark_read now s0))
   \<and> (\<forall>s \<in> set (queue_of (snd (getCallSignals now userId st)) userId).
       read s \<and> now - readAt_or_timestamp s < 10000)"
proof (intro conjI ballI)
  fix s assume "s \<in> set (fst (getCallSignals now userId st))"
  then obtain s0 where "s0 \<in> set (queue_of st userId)" "\<not> read s0"
      "now - timestamp s0 < SIGNAL_TTL" "s = mark_read now s0"
    by (auto simp: fst_getCallSignals)
  then show "now - timestamp s < 60000"
    and "\<exists>s0 \<in> set (queue_of st userId). \<not> read s0 \<and> s = mark_read now s0"
    by (auto simp: SIGNAL_TTL_def)
next
  fix s assume "s \<in> set (queue_of (snd (getCallSignals now userId st)) userId)"
  from queue_after_poll_all_read [OF this]
  show "read s" and "now - readAt_or_timestamp s < 10000"
    by (simp_all add: READ_CLEAR_AGE_def)
qed

theorem C2_witness:
  "fst (getCallSignals 8000 (JNum 7) two_signal_server) =
     [\<lparr>stype = ''ice_candidate'', sdata = JNull, timestamp = 5000, read = True, readAt = Some 8000\<rparr>]
   \<and> (8000::int) - 5000 < 60000
   \<and> map (\<lambda>s. (read s, 8000 - readAt_or_timestamp s < 10000))
        (queue_of (snd (getCallSignals 8000 (JNum 7) two_signal_server)) (JNum 7)) = [(True, True), (True, True)]"
proof -
  note inst = C2_poll_windows [of 8000 "JNum 7" two_signal_server]
  have "\<forall>s \<in> set (queue_of (snd (getCallSignals 8000 (JNum 7) two_signal_server)) (JNum 7)).
          read s \<and> 8000 - readAt_or_timestamp s < 10000"
    using inst [THEN conjunct2] .
  then show ?thesis
    by (simp add: poll_two_signal_server)
qed

text \<open>
  Claim C3 says that a drain marks each returned entry read. An unread entry between 30
  and 60 seconds old is returned unmarked (\<^verbatim>\<open>MAX_AGE_FOR_READ\<close>): here one enqueued at
  time 0 and polled at time 40000.
\<close>

theorem C3_old_entry_returned_unmarked:
  "map (\<lambda>s. (read s, readAt s)) (fst (getCallSignals 40000 (JNum 7) one_signal_server))
     = [(False, None)]"
  by (simp add: one_signal_server_def addCallSignal_def empty_server_def getCallSignals_def
      Let_def mark_read_def SIGNAL_TTL_def MAX_AGE_FOR_READ_def)

text \<open>
  Claim C3, amended. A drain returns exactly the user's unread entries younger than 60
  seconds, in queue order. A returned entry younger than 30 seconds is marked read with
  the current time; an older one is returned unmarked and is not kept in the queue. A
  second drain with no enqueue in between returns nothing, whatever its time, so every
  entry is returned once. Ten seconds or more after a drain (at a time other than 0), no
  entry that drain marked is left in the queue after the next drain.
\<close>

theorem C3_drain:
  "fst (getCallSignals now userId st) =
      map (mark_read now) (filter (\<lambda>s. \<not> read s \<and> now - timestamp s < 60000) (queue_of st userId))
   \<and> (\<forall>s \<in> set (fst (getCallSignals now userId st)).
        if now - timestamp s < 30000 then read s \<and> readAt s = Some now
        else \<not> read s \<and> s \<notin> set (queue_of (snd (getCallSignals now userId st)) userId))
   \<and> fst (getCallSignals now2 userId (snd (getCallSignals now userId st))) = []
   \<and> (now \<noteq> 0 \<and> 10000 \<le> now2 - now \<longrightarrow>
        (\<forall>s \<in> set (queue_of (snd (getCallSignals now2 userId (snd (getCallSignals now userId st)))) userId).
           readAt s \<noteq> Some now))"
proof (intro conjI ballI impI)
  show "fst (getCallSignals now userId st) =
      map (mark_read now) (filter (\<lambda>s. \<not> read s \<and> now - timestamp s < 60000) (queue_of st userId))"
    by (simp add: fst_getCallSignals SIGNAL_TTL_def conj_commute)
next
  fix s assume "s \<in> set (fst (getCallSignals now userId st))"
  then obtain s0 where s0: "\<not> read s0" "s = mark_read now s0"
    by (auto simp: fst_getCallSignals)
  show "if now - timestamp s < 30000 then read s \<and> readAt s = Some now
        else \<not> read s \<and> s \<notin> set (queue_of (snd (getCallSignals now userId st)) userId)"
  proof (cases "now - timestamp s < 30000")
    case True
    then have "now - timestamp s0 < 30000" using s0 by simp
    then show ?thesis using True s0 by (simp add: mark_read_def MAX_AGE_FOR_READ_def)
  next
    case False
    then have "\<not> now - timestamp s0 < 30000" using s0 by simp
    then have "\<not> read s" using s0 by (simp add: mark_read_def MAX_AGE_FOR_READ_def)
    then show ?thesis using False queue_after_poll_all_read [of s now userId st] by auto
  qed
next
  show "fst (getCallSignals now2 userId (snd (getCallSignals now userId st))) = []"
    by (rule second_drain_empty)
next
  fix s
  assume t: "now \<noteq> 0 \<and> 10000 \<le> now2 - now"
    and "s \<in> set (queue_of (snd (getCallSignals now2 userId (snd (getCallSignals now userId st)))) userId)"
  from queue_after_second_poll [OF this(2)]
  have "now2 - readAt_or_timestamp s < 10000" by (simp add: READ_CLEAR_AGE_def)
  then show "readAt s \<noteq> Some now" using t by (auto simp: readAt_or_timestamp_def)
qed

theorem C3_witness:
  "fst (getCallSignals 8000 (JNum 7) two_signal_server) =
     [\<lparr>stype = ''ice_candidate'', sdata = JNull, timestamp = 5000, read = True, readAt = Some 8000\<rparr>]
   \<and> fst (getCallSignals 9000 (JNum 7) (snd (getCallSignals 8000 (JNum 7) two_signal_server))) = []
   \<and> queue_of (snd (getCallSignals 18000 (JNum 7) (snd (getCallSignals 8000 (JNum 7) two_signal_server)))) (JNum 7) = []"
proof -
  note inst = C3_drain [of 8000 "JNum 7" two_signal_server 9000]
  have a: "fst (getCallSignals 9000 (JNum 7) (snd (getCallSignals 8000 (JNum 7) two_signal_server))) = []"
    using inst [THEN conjunct2, THEN conjunct2, THEN conjunct1] .
  have b: "queue_of (snd (getCallSignals 18000 (JNum 7) (snd (getCallSignals 8000 (JNum 7) two_signal_server)))) (JNum 7) = []"
    unfolding queue_of_getCallSignals [of 18000] poll_two_signal_server(2)
    by (simp add: retained_def readAt_or_timestamp_def SIGNAL_TTL_def READ_CLEAR_AGE_def)
  show ?thesis using a b poll_two_signal_server(1) by simp
qed

section \<open>Properties of the dispatcher and the registry\<close>

lemma digit_char_is_digit: "d < 10 \<Longrightarrow> is_dec_digit (digit_char d) \<and> \<not> js_space (digit_char d)
   \<and> digit_char d \<noteq> CHR ''-'' \<and> digit_char d \<noteq> CHR ''+''"
proof -
  assume "d < 10"
  then have "d \<in> {0, 1, 2, 3, 4, 5, 6, 7, 8, 9}" by auto
  then show ?thesis
    by (auto simp: is_dec_digit_def digit_val_def digit_char_def js_space_def Let_def)
qed

lemma string_of_nat_digits:
  "string_of_nat n \<noteq> [] \<and> list_all is_dec_digit (string_of_nat n)
     \<and> \<not> js_space (hd (string_of_nat n)) \<and> \<not> js_space (last (string_of_nat n))
     \<and> hd (string_of_nat n) \<noteq> CHR ''-'' \<and> hd (string_of_nat n) \<noteq> CHR ''+''"
proof (induction n rule: string_of_nat.induct)
  case (1 n)
  show ?case
  proof (cases "n < 10")
    case True
    then show ?thesis using digit_char_is_digit [of n] by (simp add: string_of_nat.simps [of n])
  next
    case False
    then show ?thesis using 1 digit_char_is_digit [of "n mod 10"]
      by (simp add: string_of_nat.simps [of n])
  qed
qed

lemma dropWhile_hd: "xs \<noteq> [] \<Longrightarrow> \<not> P (hd xs) \<Longrightarrow> dropWhile P xs = xs"
  by (cases xs) auto

lemma trim_digits:
  assumes "s \<noteq> []" "\<not> js_space (hd s)" "\<not> js_space (last s)"
  shows "rev (dropWhile js_space (rev (dropWhile js_space s))) = s"
proof -
  have a: "dropWhile js_space s = s" using assms by (simp add: dropWhile_hd)
  have "dropWhile js_space (rev s) = rev s"
    using assms by (intro dropWhile_hd) (simp_all add: hd_rev)
  then show ?thesis using a by simp
qed

lemma decimal_literal_digits:
  assumes "s \<noteq> []" "list_all is_dec_digit s"
  shows "decimal_literal s"
proof -
  have tw: "takeWhile is_dec_digit s = s" and dw: "dropWhile is_dec_digit s = []"
    using assms by (simp_all add: list_all_iff)
  show ?thesis
    unfolding decimal_literal_def Let_def tw dw
    using assms(1) by (simp add: exponent_ok_def)
qed

lemma numeric_string_of_int: "numeric_string (string_of_int n)"
proof (cases "n < 0")
  case False
  let ?s = "string_of_nat (nat n)"
  note d = string_of_nat_digits [of "nat n"]
  have t: "rev (dropWhile js_space (rev (dropWhile js_space ?s))) = ?s"
    using d by (intro trim_digits) simp_all
  have "take 1 ?s = [hd ?s]" using d by (cases ?s) simp_all
  then have "take 1 ?s \<noteq> ''-''" "take 1 ?s \<noteq> ''+''" using d by simp_all
  then show ?thesis using False t d decimal_literal_digits [of ?s]
    by (simp add: numeric_string_def string_of_int_def Let_def)
next
  case True
  let ?s = "string_of_nat (nat (- n))"
  note d = string_of_nat_digits [of "nat (- n)"]
  have sp: "\<not> js_space CHR ''-''" by (simp add: js_space_def)
  have "last (CHR ''-'' # ?s) = last ?s" using d by simp
  then have t: "rev (dropWhile js_space (rev (dropWhile js_space (CHR ''-'' # ?s)))) = CHR ''-'' # ?s"
    using d sp by (intro trim_digits) simp_all
  show ?thesis using True d decimal_literal_digits [of ?s]
    unfolding numeric_string_def string_of_int_def Let_def
    by (simp only: t if_True) simp
qed

lemma keysToTry_number:
  "\<exists>rest. keysToTry (JNum n) = JStr (string_of_int n) # rest"
  using numeric_string_of_int [of n]
  by (simp add: keysToTry_def Let_def indexOf_def strict_eq_def)

lemma storedKeys_number: "set (storedKeys (JNum n)) = {string_of_int n}"
  by (simp add: storedKeys_def Let_def)

lemma findClient_Some_iff:
  "findClient cl keys = None \<longleftrightarrow> (\<forall>key \<in> set keys. cl (js_String key) = None)"
  by (induction keys) (auto split: option.splits)

lemma delete_keys_apply:
  "foldl (\<lambda>m key. m(js_String key := None)) cl keys k =
     (if k \<in> js_String ` set keys then None else cl k)"
  by (induction keys arbitrary: cl) auto

lemma delete_keys_absent:
  "key \<in> set keys \<Longrightarrow> foldl (\<lambda>m key. m(js_String key := None)) cl keys (js_String key) = None"
  by (simp add: delete_keys_apply)

lemma sendEvent_broken:
  assumes "findClient (clients st) (keysToTry uid) = Some target" "broken (sinks st target)"
  shows "sendEvent uid type data st =
     (False, st\<lparr>clients := foldl (\<lambda>m key. m(js_String key := None)) (clients st) (keysToTry uid)\<rparr>)"
  using assms by (simp add: sendEvent_def)

lemma store_keys_apply:
  "foldl (\<lambda>m k. m(k \<mapsto> res)) cl ks k = (if k \<in> set ks then Some res else cl k)"
  by (induction ks arbitrary: cl) auto

lemma register_stores:
  "k \<in> set (storedKeys userId) \<Longrightarrow> clients (registerClient userId res st) k = Some res"
  by (simp add: registerClient_def store_keys_apply)

lemma findClient_registered_number:
  "findClient (clients (registerClient (JNum n) res st)) (keysToTry (JNum n)) = Some res"
proof -
  obtain rest where k: "keysToTry (JNum n) = JStr (string_of_int n) # rest"
    using keysToTry_number by blast
  have "clients (registerClient (JNum n) res st) (string_of_int n) = Some res"
    by (rule register_stores) (simp add: storedKeys_number)
  then show ?thesis by (simp add: k)
qed

lemma sinks_registerClient [simp]: "sinks (registerClient userId res st) = sinks st"
  by (simp add: registerClient_def)

text \<open>
  Claim C9. When \<^verbatim>\<open>sendEvent\<close> finds a connection for the user and the write raises, it
  returns \<^verbatim>\<open>false\<close> and deletes every key it tried, so that no connection is found for
  the user afterwards; for a user whose token id is a number, these are all the keys the
  connection was stored under. When no connection is found it returns \<^verbatim>\<open>false\<close> and leaves
  the state as it was.
\<close>

theorem C9_deliver_failure:
  "(findClient (clients st) (keysToTry uid) = Some target \<and> broken (sinks st target) \<longrightarrow>
      fst (sendEvent uid type data st) = False
      \<and> (\<forall>key \<in> set (keysToTry uid). clients (snd (sendEvent uid type data st)) (js_String key) = None)
      \<and> findClient (clients (snd (sendEvent uid type data st))) (keysToTry uid) = None)
   \<and> (broken (sinks st res) \<longrightarrow>
        fst (sendEvent (JNum n) type data (registerClient (JNum n) res st)) = False
        \<and> (\<forall>k \<in> set (storedKeys (JNum n)).
              clients (snd (sendEvent (JNum n) type data (registerClient (JNum n) res st))) k = None))
   \<and> (findClient (clients st) (keysToTry uid) = None \<longrightarrow> sendEvent uid type data st = (False, st))"
proof (intro conjI impI)
  assume a: "findClient (clients st) (keysToTry uid) = Some target \<and> broken (sinks st target)"
  then have se: "sendEvent uid type data st =
     (False, st\<lparr>clients := foldl (\<lambda>m key. m(js_String key := None)) (clients st) (keysToTry uid)\<rparr>)"
    by (simp add: sendEvent_broken)
  show "fst (sendEvent uid type data st) = False" by (simp add: se)
  show gone: "\<forall>key \<in> set (keysToTry uid). clients (snd (sendEvent uid type data st)) (js_String key) = None"
    by (simp add: se delete_keys_absent)
  show "findClient (clients (snd (sendEvent uid type data st))) (keysToTry uid) = None"
    using gone by (simp add: findClient_Some_iff)
next
  assume b: "broken (sinks st res)"
  let ?st1 = "registerClient (JNum n) res st"
  have se: "sendEvent (JNum n) type data ?st1 =
     (False, ?st1\<lparr>clients := foldl (\<lambda>m key. m(js_String key := None)) (clients ?st1) (keysToTry (JNum n))\<rparr>)"
    using b by (intro sendEvent_broken [OF findClient_registered_number]) simp
  show "fst (sendEvent (JNum n) type data ?st1) = False" by (simp add: se)
  obtain rest where k: "keysToTry (JNum n) = JStr (string_of_int n) # rest"
    using keysToTry_number by blast
  have "JStr (string_of_int n) \<in> set (keysToTry (JNum n))" by (simp add: k)
  from delete_keys_absent [OF this]
  show "\<forall>k \<in> set (storedKeys (JNum n)). clients (snd (sendEvent (JNum n) type data ?st1)) k = None"
    by (simp add: se storedKeys_number)
next
  assume "findClient (clients st) (keysToTry uid) = None"
  then show "sendEvent uid type data st = (False, st)" by (simp add: sendEvent_def)
qed

theorem C9_witness:
  "clients broken_client_server ''7'' = Some 1
   \<and> fst (sendEvent (JNum 7) ''call_user'' JNull broken_client_server) = False
   \<and> clients (snd (sendEvent (JNum 7) ''call_user'' JNull broken_client_server)) ''7'' = None
   \<and> sendEvent (JNum 7) ''call_user'' JNull empty_server = (False, empty_server)"
proof -
  note inst = C9_deliver_failure [where st = broken_client_server and uid = "JNum 7" and target = 1
      and type = "''call_user''" and data = JNull]
  have reg: "clients broken_client_server ''7'' = Some 1"
    unfolding broken_client_server_def
    by (rule register_stores) (simp add: storedKeys_number string_of_int_def string_of_nat_digit digit_char_def)
  have h1: "findClient (clients broken_client_server) (keysToTry (JNum 7)) = Some 1
            \<and> broken (sinks broken_client_server 1)"
    unfolding broken_client_server_def
    by (simp add: findClient_registered_number)
  obtain rest where k: "keysToTry (JNum 7) = JStr ''7'' # rest"
    using keysToTry_number [of 7] by (auto simp: string_of_int_def string_of_nat_digit digit_char_def)
  from inst [THEN conjunct1, rule_format, OF h1]
  have a: "fst (sendEvent (JNum 7) ''call_user'' JNull broken_client_server) = False"
    and b: "\<forall>key \<in> set (keysToTry (JNum 7)).
          clients (snd (sendEvent (JNum 7) ''call_user'' JNull broken_client_server)) (js_String key) = None"
    by simp_all
  from b have c: "clients (snd (sendEvent (JNum 7) ''call_user'' JNull broken_client_server)) ''7'' = None"
    by (simp add: k)
  have h3: "findClient (clients empty_server) (keysToTry (JNum 7)) = None"
    by (simp add: findClient_Some_iff empty_server_def)
  from C9_deliver_failure [where st = empty_server and uid = "JNum 7"
      and type = "''call_user''" and data = JNull,
      THEN conjunct2, THEN conjunct2, rule_format, OF h3]
  have d: "sendEvent (JNum 7) ''call_user'' JNull empty_server = (False, empty_server)" .
  show ?thesis using reg a c d by simp
qed

lemma sendEvent_callSignals [simp]: "callSignals (snd (sendEvent uid type data st)) = callSignals st"
  by (simp add: sendEvent_def split: option.splits)

lemma sendToMembers_callSignals [simp]:
  "callSignals (snd (sendToMembers ms msg st)) = callSignals st"
  by (induction ms arbitrary: st) (simp_all add: Let_def)


lemma queue_of_sendEvent [simp]: "queue_of (snd (sendEvent uid type data st)) userId = queue_of st userId"
  by (simp add: queue_of_def)

lemma getCallSignals_key:
  "js_String u = js_String v \<Longrightarrow> getCallSignals now u st = getCallSignals now v st"
  by (simp add: getCallSignals_def)



lemma ice_forwardable:
  assumes "truthy (getProp candidate ''candidate'') \<or> truthy (getProp candidate ''sdpMid'')
           \<or> (getProp candidate ''sdpMLineIndex'' \<noteq> JUndefined \<and> getProp candidate ''sdpMLineIndex'' \<noteq> JNull)"
  shows "\<not> (\<not> truthy (getProp (validCandidate candidate) ''candidate'') \<and>
             \<not> truthy (getProp (validCandidate candidate) ''sdpMid'') \<and>
             getProp (validCandidate candidate) ''sdpMLineIndex'' = JNull)"
  using assms by (auto simp: validCandidate_def js_or_def)




section \<open>Properties of the transport selection\<close>

text \<open>
  Claim C4 says that the first reconnection delay is 1 second. The attempt counter is
  incremented before the delay \<^verbatim>\<open>1000 * 2 ^ reconnectAttempts\<close> is computed, so the first
  delay is 2 seconds.
\<close>

theorem C4_first_delay:
  "scheduled (onerror CLOSED subscription_start) = [2000]"
  by (simp add: onerror_def scheduleReconnect_def subscription_start_def maxReconnectAttempts_def Let_def)

lemma closedErrors_upto_5:
  "closedErrors 0 subscription_start = \<lparr>reconnectAttempts = 0, scheduled = [], eventSourceRef = True\<rparr>"
  "closedErrors 1 subscription_start = \<lparr>reconnectAttempts = 1, scheduled = [2000], eventSourceRef = True\<rparr>"
  "closedErrors 2 subscription_start = \<lparr>reconnectAttempts = 2, scheduled = [2000, 4000], eventSourceRef = True\<rparr>"
  "closedErrors 3 subscription_start = \<lparr>reconnectAttempts = 3, scheduled = [2000, 4000, 8000], eventSourceRef = True\<rparr>"
  "closedErrors 4 subscription_start =
     \<lparr>reconnectAttempts = 4, scheduled = [2000, 4000, 8000, 16000], eventSourceRef = True\<rparr>"
  "closedErrors 5 subscription_start =
     \<lparr>reconnectAttempts = 5, scheduled = [2000, 4000, 8000, 16000, 30000], eventSourceRef = True\<rparr>"
  by (simp_all add: eval_nat_numeral onerror_def scheduleReconnect_def subscription_start_def
      maxReconnectAttempts_def reconnectFired_def Let_def)

lemma closedErrors_abandon:
  "closedErrors (Suc j) \<lparr>reconnectAttempts = 5, scheduled = ds, eventSourceRef = True\<rparr>
     = \<lparr>reconnectAttempts = 5, scheduled = ds, eventSourceRef = False\<rparr>"
  by (simp add: onerror_def scheduleReconnect_def maxReconnectAttempts_def Let_def)

lemma closedErrors_add:
  "closedErrors (5 + Suc j) subscription_start =
     \<lparr>reconnectAttempts = 5, scheduled = [2000, 4000, 8000, 16000, 30000], eventSourceRef = False\<rparr>"
proof -
  have "closedErrors (5 + Suc j) subscription_start
        = closedErrors (Suc j) (closedErrors 5 subscription_start)"
    by (simp add: eval_nat_numeral onerror_def scheduleReconnect_def subscription_start_def
      maxReconnectAttempts_def reconnectFired_def Let_def del: closedErrors.simps(2) [of j])
  then show ?thesis by (simp only: closedErrors_upto_5 closedErrors_abandon)
qed

lemma onerror_closed_delay:
  "scheduled (onerror CLOSED s) =
     scheduled s @ (if reconnectAttempts s < 5
                    then [[2000, 4000, 8000, 16000, 30000] ! reconnectAttempts s] else [])"
proof (cases "reconnectAttempts s < 5")
  case False
  then show ?thesis
    by (simp add: onerror_def scheduleReconnect_def maxReconnectAttempts_def Let_def)
next
  case True
  then consider "reconnectAttempts s = 0" | "reconnectAttempts s = 1" | "reconnectAttempts s = 2"
    | "reconnectAttempts s = 3" | "reconnectAttempts s = 4"
    by linarith
  then show ?thesis
    by cases (simp_all add: onerror_def scheduleReconnect_def maxReconnectAttempts_def Let_def)
qed

lemma onerror_closed_counter:
  "reconnectAttempts (onerror CLOSED s) =
     (if reconnectAttempts s < 5 then reconnectAttempts s + 1 else reconnectAttempts s)
   \<and> \<not> eventSourceRef (onerror CLOSED s)"
  by (simp add: onerror_def scheduleReconnect_def maxReconnectAttempts_def Let_def)

lemma onopen_then_error:
  "scheduled (onerror CLOSED (onopen s)) = scheduled s @ [2000]"
  by (simp add: onerror_closed_delay onopen_def)

lemma reopened_example:
  "scheduled (onerror CLOSED (reconnectFired (onopen (closedErrors 2 subscription_start))))
      = [2000, 4000, 2000]"
  unfolding closedErrors_upto_5
  by (simp add: onerror_closed_delay onopen_def reconnectFired_def)

lemma closedErrors_run:
  "scheduled (closedErrors k subscription_start) = take k [2000, 4000, 8000, 16000, 30000]
   \<and> reconnectAttempts (closedErrors k subscription_start) = min k 5
   \<and> eventSourceRef (closedErrors k subscription_start) = (k \<le> 5)"
proof -
  have "k = 0 \<or> k = 1 \<or> k = 2 \<or> k = 3 \<or> k = 4 \<or> k = 5 \<or> (\<exists>j. k = 5 + Suc j)"
    by presburger
  then consider "k = 0" | "k = 1" | "k = 2" | "k = 3" | "k = 4" | "k = 5" | j where "k = 5 + Suc j"
    by blast
  then show ?thesis
  proof cases
    case 1 show ?thesis unfolding 1 closedErrors_upto_5 by simp
  next
    case 2 show ?thesis unfolding 2 closedErrors_upto_5 by simp
  next
    case 3 show ?thesis unfolding 3 closedErrors_upto_5 by simp
  next
    case 4 show ?thesis unfolding 4 closedErrors_upto_5 by simp
  next
    case 5 show ?thesis unfolding 5 closedErrors_upto_5 by simp
  next
    case 6 show ?thesis unfolding 6 closedErrors_upto_5 by simp
  next
    case 7 show ?thesis unfolding 7 closedErrors_add by simp
  qed
qed

text \<open>
  Claim C4, amended. Whenever the subscription errors with the closed ready state, it is
  dropped and, while fewer than five reconnections have been counted, one reconnection
  timer is set and the count goes up by one: the delay is 2 s, 4 s, 8 s, 16 s or 30 s for
  the counts 0 to 4 (1000 ms times two to the incremented count, capped at 30 s). At
  count five such an error sets no timer and leaves the count. An error in another ready
  state changes nothing. A successful open resets the count to zero and touches nothing
  else, so the closed error after it waits 2 s again: two failed connections, a
  connection that opened and one more closed error give the delays 2 s, 4 s, 2 s. With
  \<^verbatim>\<open>k\<close> closed errors in a row from the start and no open in between, the delays are
  the first \<^verbatim>\<open>k\<close> of 2 s, 4 s, 8 s, 16 s and 30 s; after five reconnections the next error
  sets no timer, the subscription stays closed and the client is left with polling.
\<close>

theorem C4_backoff:
  "scheduled (onerror CLOSED s) =
     scheduled s @ (if reconnectAttempts s < 5
                    then [[2000, 4000, 8000, 16000, 30000] ! reconnectAttempts s] else [])
   \<and> reconnectAttempts (onerror CLOSED s) =
       (if reconnectAttempts s < 5 then reconnectAttempts s + 1 else reconnectAttempts s)
   \<and> \<not> eventSourceRef (onerror CLOSED s)
   \<and> onerror CONNECTING s = s \<and> onerror OPEN s = s
   \<and> reconnectAttempts (onopen s) = 0 \<and> scheduled (onopen s) = scheduled s
   \<and> eventSourceRef (onopen s) = eventSourceRef s
   \<and> scheduled (onerror CLOSED (onopen s)) = scheduled s @ [2000]
   \<and> scheduled (onerror CLOSED (reconnectFired (onopen (closedErrors 2 subscription_start))))
        = [2000, 4000, 2000]
   \<and> scheduled (onerror CLOSED (closedErrors 2 subscription_start)) = [2000, 4000, 8000]
   \<and> scheduled (closedErrors k subscription_start) = take k [2000, 4000, 8000, 16000, 30000]
   \<and> reconnectAttempts (closedErrors k subscription_start) = min k 5
   \<and> eventSourceRef (closedErrors k subscription_start) = (k \<le> 5)"
proof -
  have other: "onerror CONNECTING s = s" "onerror OPEN s = s"
    by (simp_all add: onerror_def)
  have op: "reconnectAttempts (onopen s) = 0" "scheduled (onopen s) = scheduled s"
    "eventSourceRef (onopen s) = eventSourceRef s"
    by (simp_all add: onopen_def)
  have third: "scheduled (onerror CLOSED (closedErrors 2 subscription_start)) = [2000, 4000, 8000]"
    unfolding closedErrors_upto_5 by (simp add: onerror_closed_delay)
  show ?thesis
    using onerror_closed_delay [of s] onerror_closed_counter [of s] other op
      onopen_then_error [of s] reopened_example third closedErrors_run [of k]
    by simp
qed

lemma firePolls_not_due:
  assumes "callPollIntervalRef p = Some (period, due)" "until < due"
  shows "firePolls tie until p = p"
  using assms by (simp add: firePolls.simps [of tie until p])

lemma updatePollInterval_interval:
  "callPollIntervalRef (updatePollInterval now active receiving p) =
     Some (if active \<or> receiving then 500 else 2000,
           now + (if active \<or> receiving then 500 else 2000))"
  by (simp add: updatePollInterval_def Let_def)

lemma polled_updatePollInterval [simp]:
  "polled (updatePollInterval now a r p) = polled p"
  by (simp add: updatePollInterval_def Let_def)

lemma idle_checks_never_poll:
  assumes "callPollIntervalRef p = Some (period, due)" "t < due"
  shows "polled (runChecks tie t (replicate n (False, False)) p) = polled p"
  using assms
proof (induction n arbitrary: t p period due)
  case 0
  then show ?case by simp
next
  case (Suc n)
  have f: "firePolls tie t p = p" using Suc.prems by (rule firePolls_not_due)
  let ?p1 = "updatePollInterval t False False p"
  have "callPollIntervalRef ?p1 = Some (2000, t + 2000)"
    by (simp add: updatePollInterval_interval)
  then have "polled (runChecks tie (t + 1000) (replicate n (False, False)) ?p1) = polled ?p1"
    by (rule Suc.IH) simp
  then show ?case by (simp add: f)
qed

text \<open>
  Claim C5 gives 2000 ms as the polling interval while no call is active and no ring is
  pending. \<^verbatim>\<open>updatePollInterval\<close> does choose that period, but the timer check runs it
  every 1000 ms and each run clears the poll timer and sets a new one, due 2000 ms
  later: in an idle session the poll timer never fires, and \<^verbatim>\<open>pollCalls\<close> runs once, when
  polling starts. This holds whichever of two timers due at the same time runs first.
\<close>

theorem C5_idle_polling_starved:
  "polled (pollSession tie t0 (False, False) (replicate n (False, False))) = [t0]
   \<and> callPollIntervalRef (startPolling t0 False False) = Some (2000, t0 + 2000)"
proof -
  have a: "callPollIntervalRef (startPolling t0 False False) = Some (2000, t0 + 2000)"
    by (simp add: startPolling_def updatePollInterval_interval)
  have "polled (runChecks tie (t0 + 1000) (replicate n (False, False)) (startPolling t0 False False))
        = polled (startPolling t0 False False)"
    by (rule idle_checks_never_poll [OF a]) simp
  then show ?thesis using a by (simp add: pollSession_def startPolling_def)
qed

lemma interval_follows_refs:
  "callPollIntervalRef (runChecks tie t (refs @ [(a, r)]) p) =
     Some (if a \<or> r then 500 else 2000, t + 1000 * int (length refs) + (if a \<or> r then 500 else 2000))"
proof (induction refs arbitrary: t p)
  case Nil
  then show ?case by (simp add: updatePollInterval_interval)
next
  case (Cons x refs)
  obtain a' r' where x: "x = (a', r')" by (cases x)
  show ?case unfolding x by (simp add: Cons.IH algebra_simps)
qed

lemma active_session_polls:
  "polled (pollSession False 0 (True, False) [(True, False), (True, False)]) = [0, 500, 1500]"
  "polled (pollSession True 0 (True, False) [(True, False), (True, False)]) = [0, 500, 1000, 1500, 2000]"
  by (simp_all add: pollSession_def startPolling_def updatePollInterval_def Let_def firePolls.simps)

section \<open>Properties of the call session\<close>

lemma string_of_int_digit: "0 \<le> n \<Longrightarrow> n < 10 \<Longrightarrow> string_of_int n = [digit_char (nat n)]"
  by (simp add: string_of_int_def string_of_nat_digit)

lemma sendEvent_no_clients:
  assumes "clients st = Map.empty"
  shows "sendEvent uid type data st = (False, st)"
proof -
  have "findClient (clients st) (keysToTry uid) = None"
    using assms by (simp add: findClient_Some_iff)
  then show ?thesis by (simp add: sendEvent_def)
qed

lemma first_poll:
  "map signal_json (fst (calls_poll 1500 (JNum 2) two_calls_server)) =
     [JObj [(''type'', JStr ''call_user''),
            (''data'', JObj [(''from'', JNum 7),
                             (''signal'', JObj [(''type'', JStr ''offer''), (''sdp'', JStr ''sdp-of-7''),
                                               (''isVideo'', JBool False)]),
                             (''name'', JStr ''ann'')]),
            (''timestamp'', JNum 1000), (''read'', JBool True), (''readAt'', JNum 1500)]]"
  by (simp add: two_calls_server_def calls_initiate_def calls_poll_def toIdInt_def Let_def
      sendEvent_no_clients empty_server_def addCallSignal_def getCallSignals_def
      mark_read_def js_or_def offer_from_def signal_json_def string_of_int_digit digit_char_def
      SIGNAL_TTL_def MAX_AGE_FOR_READ_def)

lemma second_poll:
  "second_poll_response =
     [JObj [(''type'', JStr ''call_user''),
            (''data'', JObj [(''from'', JNum 9),
                             (''signal'', JObj [(''type'', JStr ''offer''), (''sdp'', JStr ''sdp-of-9''),
                                               (''isVideo'', JBool False)]),
                             (''name'', JStr ''bob'')]),
            (''timestamp'', JNum 2000), (''read'', JBool True), (''readAt'', JNum 2500)]]"
  by (simp add: second_poll_response_def two_calls_server_def calls_initiate_def calls_poll_def
      toIdInt_def Let_def
      sendEvent_no_clients empty_server_def addCallSignal_def getCallSignals_def
      mark_read_def js_or_def offer_from_def signal_json_def string_of_int_digit digit_char_def
      retained_def readAt_or_timestamp_def
      SIGNAL_TTL_def MAX_AGE_FOR_READ_def READ_CLEAR_AGE_def CLEAR_AGE_def)

lemma ringing_client_eq:
  "ringing_client = mounted_client\<lparr>callTargetRef := JNum 7, receivingCallRef := True,
     current := mount_render\<lparr>receivingCall := True, caller := JNum 7,
        callerSignal := JObj [(''type'', JStr ''offer''), (''sdp'', JStr ''sdp-of-7''), (''isVideo'', JBool False)],
        callStatus := ''ann is calling...''\<rparr>\<rparr>"
  by (simp add: ringing_client_def first_poll_response_def first_poll poll_signal_def poll_call_user_def
      Let_def mount_render_def mounted_client_def acceptIncoming_def js_or_def)

text \<open>
  Claim C6 says that a \<^verbatim>\<open>call_user\<close> event is ignored while a ring is pending. The guard
  reads \<^verbatim>\<open>callActive\<close>, \<^verbatim>\<open>receivingCall\<close> and \<^verbatim>\<open>caller\<close> of the render in which the
  handler was created, the one of the mount. User 7 calls user 2, whose client polls the
  offer and rings; then user 9 calls user 2: the second offer, polled or pushed, replaces
  the caller, the stored offer and the call target of the first.
\<close>

theorem C6_second_offer_replaces_first:
  "receivingCall (current ringing_client) \<and> caller (current ringing_client) = JNum 7
   \<and> caller (current (poll_signals (\<lambda>c. True) mount_render second_poll_response ringing_client)) = JNum 9
   \<and> callTargetRef (poll_signals (\<lambda>c. True) mount_render second_poll_response ringing_client) = JNum 9
   \<and> callerSignal (current (poll_signals (\<lambda>c. True) mount_render second_poll_response ringing_client))
       = JObj [(''type'', JStr ''offer''), (''sdp'', JStr ''sdp-of-9''), (''isVideo'', JBool False)]
   \<and> caller (current (sse_onmessage (\<lambda>c. True) mount_render
         (eventPayload ''call_user'' (JObj [(''from'', JNum 9)])) ringing_client)) = JUndefined"
  by (simp add: ringing_client_eq second_poll poll_signal_def poll_call_user_def sse_onmessage_def
      sse_call_user_def eventPayload_def
      Let_def mount_render_def mounted_client_def acceptIncoming_def js_or_def)

lemma call_user_ignored_by_its_render:
  assumes "(connectionRef c \<noteq> ConnNull \<and> callActive r) \<or>
           (receivingCall r \<and> caller r \<noteq> JNull \<and> \<not> callActive r)"
  shows "sse_call_user r data c = c" and "poll_call_user r sig c = Some c"
  using assms by (auto simp: sse_call_user_def poll_call_user_def Let_def)

lemma call_user_never_ignored_after_mount:
  "sse_call_user mount_render data c =
     acceptIncoming (getProp data ''from'')
       (js_or (js_or (getProp data ''name'') (getProp (getProp data ''signal'') ''name'')) (JStr ''Someone''))
       (getProp data ''signal'') c"
  by (simp add: sse_call_user_def mount_render_def Let_def)

lemma in_call_client_facts:
  "callActive (current in_call_client)" "\<not> receivingCall (current in_call_client)"
  "localStream (current in_call_client) = Some 1" "tracks in_call_client 1 = [True, True]"
  "connectionRef in_call_client = Conn 1" "callTargetRef in_call_client = JNum 7"
  "\<not> callEndedIntentionallyRef in_call_client"
  by (simp_all add: in_call_client_def answerCall_onMedia_def answerCall_def withNewPeer_def
      withLocalStream_def ringing_client_eq Let_def mounted_client_def mount_render_def js_or_def
      eval_nat_numeral)

lemma callbacks_ignore_after_end:
  assumes "callEndedIntentionallyRef c"
  shows "caller_onconnectionstatechange r p st c = c"
    and "caller_oniceconnectionstatechange r p st c = c"
    and "answerer_onconnectionstatechange r p st c = c"
    and "answerer_oniceconnectionstatechange r p st c = c"
    and "restartTimerFired p st c = c"
  using assms
  by (simp_all add: caller_onconnectionstatechange_def caller_oniceconnectionstatechange_def
      answerer_onconnectionstatechange_def answerer_oniceconnectionstatechange_def
      restartTimerFired_def)

lemma logOp_fields [simp]:
  "tracks (logOp x c) = tracks c" "requests (logOp x c) = requests c"
  "timeouts (logOp x c) = timeouts c" "connectionRef (logOp x c) = connectionRef c"
  "callEndedIntentionallyRef (logOp x c) = callEndedIntentionallyRef c"
  "peers (logOp x c) = peers c" "current (logOp x c) = current c"
  "oplog (logOp x c) = oplog c @ [x]"
  by (simp_all add: logOp_def)

lemma setCallStatus_fields [simp]:
  "tracks (setCallStatus m c) = tracks c" "requests (setCallStatus m c) = requests c"
  "timeouts (setCallStatus m c) = timeouts c" "connectionRef (setCallStatus m c) = connectionRef c"
  "callEndedIntentionallyRef (setCallStatus m c) = callEndedIntentionallyRef c"
  "peers (setCallStatus m c) = peers c" "oplog (setCallStatus m c) = oplog c"
  by (simp_all add: setCallStatus_def)

lemma detachHandlers_fields [simp]:
  "tracks (detachHandlers c) = tracks c" "requests (detachHandlers c) = requests c"
  "timeouts (detachHandlers c) = timeouts c" "connectionRef (detachHandlers c) = connectionRef c"
  "callEndedIntentionallyRef (detachHandlers c) = callEndedIntentionallyRef c"
  "current (detachHandlers c) = current c"
  by (cases "connectionRef c"; simp add: detachHandlers_def)+

lemma stopLocalStream_fields [simp]:
  "requests (stopLocalStream r c) = requests c"
  "timeouts (stopLocalStream r c) = timeouts c"
  "connectionRef (stopLocalStream r c) = connectionRef c"
  "callEndedIntentionallyRef (stopLocalStream r c) = callEndedIntentionallyRef c"
  "peers (stopLocalStream r c) = peers c"
  by (cases "localStream r"; simp add: stopLocalStream_def)+

lemma stopLocalStream_tracks:
  "tracks (stopLocalStream r c) =
     (case localStream r of None \<Rightarrow> tracks c
      | Some s \<Rightarrow> (tracks c)(s := map (\<lambda>live. False) (tracks c s)))"
  by (cases "localStream r"; simp add: stopLocalStream_def)

lemma clearVideoElements_fields [simp]:
  "tracks (clearVideoElements c) = tracks c" "requests (clearVideoElements c) = requests c"
  "timeouts (clearVideoElements c) = timeouts c"
  "connectionRef (clearVideoElements c) = connectionRef c"
  "callEndedIntentionallyRef (clearVideoElements c) = callEndedIntentionallyRef c"
  "peers (clearVideoElements c) = peers c" "current (clearVideoElements c) = current c"
  by (simp_all add: clearVideoElements_def)

lemma closeConnection_fields [simp]:
  "tracks (closeConnection c) = tracks c" "requests (closeConnection c) = requests c"
  "timeouts (closeConnection c) = timeouts c"
  "callEndedIntentionallyRef (closeConnection c) = callEndedIntentionallyRef c"
  "current (closeConnection c) = current c"
  by (cases "connectionRef c"; simp add: closeConnection_def)+

lemma closeConnection_closes:
  "connectionRef c = Conn p \<Longrightarrow>
     closed (peers (closeConnection c) p) \<and> connectionRef (closeConnection c) = ConnNull"
  by (simp add: closeConnection_def)

lemma resetCallState_fields [simp]:
  "tracks (resetCallState c) = tracks c" "requests (resetCallState c) = requests c"
  "timeouts (resetCallState c) = timeouts c" "connectionRef (resetCallState c) = connectionRef c"
  "peers (resetCallState c) = peers c"
  by (simp_all add: resetCallState_def)

lemma endCallCleanup_tracks:
  "tracks (endCallCleanup r m c) =
     (case localStream r of None \<Rightarrow> tracks c
      | Some s \<Rightarrow> (tracks c)(s := map (\<lambda>live. False) (tracks c s)))"
  by (cases "localStream r") (simp_all add: endCallCleanup_def Let_def stopLocalStream_tracks)

lemma cleanup_stops_tracks_of_render:
  assumes "localStream r = Some s"
  shows "tracks (endCallCleanup r m c) s = map (\<lambda>live. False) (tracks c s)"
  using assms by (simp add: endCallCleanup_tracks)

lemma requests_endCallCleanup [simp]: "requests (endCallCleanup r m c) = requests c"
  by (simp add: endCallCleanup_def Let_def)

lemma timeouts_endCallCleanup:
  "m \<noteq> [] \<Longrightarrow> timeouts (endCallCleanup r m c) = timeouts c @ [3000]"
  by (simp add: endCallCleanup_def Let_def)

lemma flag_endCallCleanup:
  "m \<noteq> [] \<Longrightarrow> callEndedIntentionallyRef (endCallCleanup r m c)"
  by (simp add: endCallCleanup_def Let_def)

lemma endCallCleanup_closes:
  assumes "connectionRef c = Conn p"
  shows "closed (peers (endCallCleanup r m c) p) \<and> connectionRef (endCallCleanup r m c) = ConnNull"
proof (cases "m = []")
  case True
  let ?x = "clearVideoElements (stopLocalStream r (resetCallState
              (detachHandlers (logOp MarkEnded (c\<lparr>callEndedIntentionallyRef := True\<rparr>)))))"
  have "connectionRef ?x = Conn p" using assms by simp
  from closeConnection_closes [OF this] show ?thesis
    using True by (simp add: endCallCleanup_def Let_def)
next
  case False
  let ?c2 = "detachHandlers (logOp MarkEnded (c\<lparr>callEndedIntentionallyRef := True\<rparr>))"
  let ?x = "clearVideoElements (stopLocalStream r (logOp (ShowStatus m)
              (?c2\<lparr>current := (current ?c2)\<lparr>callStatus := m, showCallEnding := True\<rparr>\<rparr>)))"
  have "connectionRef ?x = Conn p" using assms by simp
  from closeConnection_closes [OF this] show ?thesis
    using False by (simp add: endCallCleanup_def Let_def)
qed

lemma detachHandlers_detaches:
  assumes "connectionRef c = Conn p"
  shows "\<not> onconnectionstatechange (peers (detachHandlers c) p)
     \<and> \<not> oniceconnectionstatechange (peers (detachHandlers c) p)
     \<and> \<not> onicegatheringstatechange (peers (detachHandlers c) p)
     \<and> \<not> ontrack (peers (detachHandlers c) p)
     \<and> \<not> onicecandidate (peers (detachHandlers c) p)"
  using assms by (simp add: detachHandlers_def)

lemma reset_is_idle:
  "\<not> callActive (current (resetTimeoutFired c)) \<and> \<not> receivingCall (current (resetTimeoutFired c))
   \<and> \<not> callActiveRef (resetTimeoutFired c) \<and> \<not> receivingCallRef (resetTimeoutFired c)
   \<and> caller (current (resetTimeoutFired c)) = JNull \<and> callStatus (current (resetTimeoutFired c)) = []
   \<and> \<not> showCallEnding (current (resetTimeoutFired c))
   \<and> \<not> callEndedIntentionallyRef (resetTimeoutFired c) \<and> callTargetRef (resetTimeoutFired c) = JNull"
  by (simp add: resetTimeoutFired_def resetCallState_def logOp_def)

lemma tracks_resetTimeoutFired [simp]: "tracks (resetTimeoutFired c) = tracks c"
  by (simp add: resetTimeoutFired_def)

lemma leaveCall_unfold:
  "leaveCall r c =
     endCallCleanup r (if receivingCall r \<and> \<not> callActive r then ''Call declined'' else ''Call ended'')
       (if truthy (leaveCall_target r c)
        then logOp (PostEndCall (leaveCall_target r c))
               (c\<lparr>requests := requests c @ [(''/api/calls/end'', JObj [(''to'', leaveCall_target r c)])]\<rparr>)
        else c)"
  by (simp add: leaveCall_def leaveCall_target_def js_or_def Let_def)

text \<open>
  Claim C10. \<^verbatim>\<open>leaveCall\<close> posts \<^verbatim>\<open>end_call\<close> to the first truthy value among the cached call
  target, the selected contact's \<^verbatim>\<open>_id\<close> and \<^verbatim>\<open>id\<close>, and the recorded caller, and posts
  nothing when there is none (all three null). In every case it sets the flag, stops
  the tracks of the local stream and sets the reset timer of 3 seconds, after which the
  session is idle.
\<close>

theorem C10_leaveCall:
  "requests (leaveCall r c) =
      requests c @ (if truthy (leaveCall_target r c)
                    then [(''/api/calls/end'', JObj [(''to'', leaveCall_target r c)])] else [])
   \<and> (callTargetRef c = JNull \<and> selectedUser r = JNull \<and> caller r = JNull \<longrightarrow>
        requests (leaveCall r c) = requests c)
   \<and> callEndedIntentionallyRef (leaveCall r c)
   \<and> (\<forall>s. localStream r = Some s \<longrightarrow> tracks (leaveCall r c) s = map (\<lambda>live. False) (tracks c s))
   \<and> timeouts (leaveCall r c) = timeouts c @ [3000]
   \<and> \<not> callActive (current (resetTimeoutFired (leaveCall r c)))
   \<and> \<not> receivingCall (current (resetTimeoutFired (leaveCall r c)))
   \<and> \<not> callActiveRef (resetTimeoutFired (leaveCall r c))
   \<and> \<not> receivingCallRef (resetTimeoutFired (leaveCall r c))
   \<and> callTargetRef (resetTimeoutFired (leaveCall r c)) = JNull"
proof (intro conjI impI allI)
  show "requests (leaveCall r c) =
      requests c @ (if truthy (leaveCall_target r c)
                    then [(''/api/calls/end'', JObj [(''to'', leaveCall_target r c)])] else [])"
    by (simp add: leaveCall_unfold logOp_def)
next
  assume "callTargetRef c = JNull \<and> selectedUser r = JNull \<and> caller r = JNull"
  then have "\<not> truthy (leaveCall_target r c)" by (simp add: leaveCall_target_def)
  then show "requests (leaveCall r c) = requests c" by (simp add: leaveCall_unfold)
next
  show "callEndedIntentionallyRef (leaveCall r c)"
    by (simp add: leaveCall_unfold flag_endCallCleanup)
next
  fix s assume "localStream r = Some s"
  then show "tracks (leaveCall r c) s = map (\<lambda>live. False) (tracks c s)"
    by (simp add: leaveCall_unfold cleanup_stops_tracks_of_render logOp_def)
next
  show "timeouts (leaveCall r c) = timeouts c @ [3000]"
    by (simp add: leaveCall_unfold timeouts_endCallCleanup logOp_def)
next
  show "\<not> callActive (current (resetTimeoutFired (leaveCall r c)))"
    and "\<not> receivingCall (current (resetTimeoutFired (leaveCall r c)))"
    and "\<not> callActiveRef (resetTimeoutFired (leaveCall r c))"
    and "\<not> receivingCallRef (resetTimeoutFired (leaveCall r c))"
    and "callTargetRef (resetTimeoutFired (leaveCall r c)) = JNull"
    using reset_is_idle [of "leaveCall r c"] by simp_all
qed

theorem C10_witness:
  "requests (leaveCall (current in_call_client) in_call_client)
      = requests in_call_client @ [(''/api/calls/end'', JObj [(''to'', JNum 7)])]
   \<and> tracks (leaveCall (current in_call_client) in_call_client) 1 = [False, False]
   \<and> requests (leaveCall mount_render mounted_client) = []"
proof -
  note a = C10_leaveCall [of "current in_call_client" in_call_client]
  note b = C10_leaveCall [of mount_render mounted_client]
  have t: "leaveCall_target (current in_call_client) in_call_client = JNum 7"
    by (simp add: leaveCall_target_def in_call_client_facts)
  have r1: "requests (leaveCall (current in_call_client) in_call_client)
      = requests in_call_client @ [(''/api/calls/end'', JObj [(''to'', JNum 7)])]"
    using a [THEN conjunct1] by (simp add: t)
  have "tracks (leaveCall (current in_call_client) in_call_client) 1
          = map (\<lambda>live. False) (tracks in_call_client 1)"
    using a [THEN conjunct2, THEN conjunct2, THEN conjunct2, THEN conjunct1]
    by (simp add: in_call_client_facts)
  then have r2: "tracks (leaveCall (current in_call_client) in_call_client) 1 = [False, False]"
    unfolding in_call_client_facts by simp
  have "requests (leaveCall mount_render mounted_client) = requests mounted_client"
    using b [THEN conjunct2, THEN conjunct1] by (simp add: mount_render_def mounted_client_def)
  then have r3: "requests (leaveCall mount_render mounted_client) = []"
    by (simp add: mounted_client_def)
  show ?thesis using r1 r2 r3 by simp
qed

lemma pushed_frame_has_no_candidate:
  "sse_onmessage accepts r (eventPayload ''ice_candidate'' candidate) c = c"
  by (cases "connectionRef c")
     (simp_all add: sse_onmessage_def eventPayload_def on_ice_candidate_def Let_def)

text \<open>
  What the handlers do with the candidate they read. With a peer connection in place, a
  candidate that is truthy and has a candidate string, an \<^verbatim>\<open>sdpMid\<close> or an
  \<^verbatim>\<open>sdpMLineIndex\<close> is handed to the connection (and kept by it when the browser accepts
  it). A candidate that is null or absent, or lacks all three, leaves the client as it
  was; no branch raises. The subscription reads \<^verbatim>\<open>data.candidate\<close> of the frame and the
  poll reads \<^verbatim>\<open>signal.data\<close>. The server handler answers a request with a null candidate
  or with one lacking all three fields without touching its state, and forwards every
  other candidate to the push channel and the queue.
\<close>

lemma ice_candidate_handlers:
  "(connectionRef c = Conn p \<and> truthy candidate \<and> accepts candidate \<and>
      (truthy (getProp candidate ''candidate'') \<or> truthy (getProp candidate ''sdpMid'')
         \<or> getProp candidate ''sdpMLineIndex'' \<noteq> JUndefined) \<longrightarrow>
      on_ice_candidate accepts candidate c =
        c\<lparr>peers := (peers c)(p := (peers c p)\<lparr>iceCandidates := iceCandidates (peers c p) @ [candidate]\<rparr>)\<rparr>)
   \<and> (\<not> truthy candidate \<or>
        (\<not> truthy (getProp candidate ''candidate'') \<and> \<not> truthy (getProp candidate ''sdpMid'')
           \<and> getProp candidate ''sdpMLineIndex'' = JUndefined) \<longrightarrow>
      on_ice_candidate accepts candidate c = c)
   \<and> (getProp data ''type'' = JStr ''ice_candidate'' \<longrightarrow>
        sse_onmessage accepts r data c = on_ice_candidate accepts (getProp data ''candidate'') c
        \<and> poll_signal accepts r data c = Some (on_ice_candidate accepts (getProp data ''data'') c))
   \<and> (truthy to \<and>
        (\<not> truthy candidate \<or>
           (\<not> truthy (getProp candidate ''candidate'') \<and> \<not> truthy (getProp candidate ''sdpMid'')
             \<and> (getProp candidate ''sdpMLineIndex'' = JUndefined \<or>
                 getProp candidate ''sdpMLineIndex'' = JNull))) \<longrightarrow>
        calls_ice_candidate now senderId to candidate st = (Success, st))
   \<and> (truthy to \<and> truthy candidate \<and>
        (truthy (getProp candidate ''candidate'') \<or> truthy (getProp candidate ''sdpMid'')
           \<or> (getProp candidate ''sdpMLineIndex'' \<noteq> JUndefined \<and>
               getProp candidate ''sdpMLineIndex'' \<noteq> JNull)) \<longrightarrow>
        calls_ice_candidate now senderId to candidate st =
          (Success, addCallSignal now (toIdInt to) (''ice_candidate'', validCandidate candidate)
             (snd (sendEvent (toIdInt to) ''ice_candidate'' (validCandidate candidate) st))))"
proof (intro conjI impI)
  assume "connectionRef c = Conn p \<and> truthy candidate \<and> accepts candidate \<and>
      (truthy (getProp candidate ''candidate'') \<or> truthy (getProp candidate ''sdpMid'')
         \<or> getProp candidate ''sdpMLineIndex'' \<noteq> JUndefined)"
  then show "on_ice_candidate accepts candidate c =
        c\<lparr>peers := (peers c)(p := (peers c p)\<lparr>iceCandidates := iceCandidates (peers c p) @ [candidate]\<rparr>)\<rparr>"
    by (auto simp: on_ice_candidate_def)
next
  assume "\<not> truthy candidate \<or>
        (\<not> truthy (getProp candidate ''candidate'') \<and> \<not> truthy (getProp candidate ''sdpMid'')
           \<and> getProp candidate ''sdpMLineIndex'' = JUndefined)"
  then show "on_ice_candidate accepts candidate c = c"
    by (cases "connectionRef c") (auto simp: on_ice_candidate_def)
next
  assume "getProp data ''type'' = JStr ''ice_candidate''"
  then show "sse_onmessage accepts r data c = on_ice_candidate accepts (getProp data ''candidate'') c"
    and "poll_signal accepts r data c = Some (on_ice_candidate accepts (getProp data ''data'') c)"
    by (simp_all add: sse_onmessage_def poll_signal_def Let_def)
next
  assume a: "truthy to \<and>
        (\<not> truthy candidate \<or>
           (\<not> truthy (getProp candidate ''candidate'') \<and> \<not> truthy (getProp candidate ''sdpMid'')
             \<and> (getProp candidate ''sdpMLineIndex'' = JUndefined \<or>
                 getProp candidate ''sdpMLineIndex'' = JNull)))"
  show "calls_ice_candidate now senderId to candidate st = (Success, st)"
  proof (cases "truthy candidate")
    case False
    then show ?thesis using a by (simp add: calls_ice_candidate_def)
  next
    case True
    then have "\<not> truthy (getProp (validCandidate candidate) ''candidate'') \<and>
             \<not> truthy (getProp (validCandidate candidate) ''sdpMid'') \<and>
             getProp (validCandidate candidate) ''sdpMLineIndex'' = JNull"
      using a by (auto simp: validCandidate_def js_or_def)
    then show ?thesis using a True by (simp add: calls_ice_candidate_def Let_def)
  qed
next
  assume a: "truthy to \<and> truthy candidate \<and>
        (truthy (getProp candidate ''candidate'') \<or> truthy (getProp candidate ''sdpMid'')
           \<or> (getProp candidate ''sdpMLineIndex'' \<noteq> JUndefined \<and>
               getProp candidate ''sdpMLineIndex'' \<noteq> JNull))"
  then have fw: "\<not> (\<not> truthy (getProp (validCandidate candidate) ''candidate'') \<and>
             \<not> truthy (getProp (validCandidate candidate) ''sdpMid'') \<and>
             getProp (validCandidate candidate) ''sdpMLineIndex'' = JNull)"
    by (intro ice_forwardable) simp
  show "calls_ice_candidate now senderId to candidate st =
          (Success, addCallSignal now (toIdInt to) (''ice_candidate'', validCandidate candidate)
             (snd (sendEvent (toIdInt to) ''ice_candidate'' (validCandidate candidate) st)))"
    using a fw unfolding calls_ice_candidate_def Let_def
    by (simp only: if_False if_True simp_thms)
qed

lemma valid_sample_candidate: "validCandidate sample_candidate = sample_candidate"
  by (simp add: validCandidate_def sample_candidate_def js_or_def)

lemma sendEvent_live_number:
  "sendEvent (JNum n) type data (registerClient (JNum n) res empty_server)
      = (True, (registerClient (JNum n) res empty_server)
          \<lparr>sinks := (sinks empty_server)(res := \<lparr>broken = False, written = [eventPayload type data]\<rparr>)\<rparr>)"
proof -
  have s: "sinks (registerClient (JNum n) res empty_server) = sinks empty_server"
    by (simp add: registerClient_def)
  have e: "sinks empty_server res = \<lparr>broken = False, written = []\<rparr>"
    by (simp add: empty_server_def)
  show ?thesis
    unfolding sendEvent_def findClient_registered_number by (simp add: s e)
qed

lemma ice_relay_server_eq:
  "ice_relay_server =
     addCallSignal 3000 (JNum 2) (''ice_candidate'', sample_candidate)
       ((registerClient (JNum 2) 1 empty_server)
          \<lparr>sinks := (sinks empty_server)(1 := \<lparr>broken = False,
               written = [eventPayload ''ice_candidate'' sample_candidate]\<rparr>)\<rparr>)"
proof -
  have tr: "truthy sample_candidate" "truthy (getProp sample_candidate ''candidate'')"
    by (simp_all add: sample_candidate_def)
  show ?thesis
    unfolding ice_relay_server_def calls_ice_candidate_def
    by (simp add: Let_def valid_sample_candidate tr toIdInt_def sendEvent_live_number del: One_nat_def)
qed

lemma pushed_ice_frames_eq:
  "pushed_ice_frames = [eventPayload ''ice_candidate'' sample_candidate]"
  by (simp add: pushed_ice_frames_def ice_relay_server_eq addCallSignal_def Let_def)

lemma queue_ice_relay_server:
  "queue_of ice_relay_server (JNum 2) =
     [\<lparr>stype = ''ice_candidate'', sdata = sample_candidate, timestamp = 3000, read = False, readAt = None\<rparr>]"
  by (simp add: ice_relay_server_eq addCallSignal_def queue_of_def Let_def registerClient_def
      empty_server_def)

lemma poll_ice_relay_server:
  "fst (calls_poll 3500 (JNum 2) ice_relay_server) =
     [\<lparr>stype = ''ice_candidate'', sdata = sample_candidate, timestamp = 3000, read = True, readAt = Some 3500\<rparr>]"
  by (simp add: calls_poll_def toIdInt_def fst_getCallSignals queue_ice_relay_server
      mark_read_def SIGNAL_TTL_def MAX_AGE_FOR_READ_def)

lemma polled_ice_signals_eq:
  "polled_ice_signals =
     [JObj [(''type'', JStr ''ice_candidate''), (''data'', sample_candidate),
            (''timestamp'', JNum 3000), (''read'', JBool True), (''readAt'', JNum 3500)]]"
  by (simp add: polled_ice_signals_def poll_ice_relay_server signal_json_def)

lemma no_candidates_yet: "iceCandidates (peers in_call_client 1) = []"
  by (simp add: in_call_client_def answerCall_onMedia_def answerCall_def withNewPeer_def
      withLocalStream_def Let_def new_peer_def)

lemma ringing_has_no_connection: "connectionRef ringing_client = ConnUndefined"
  by (simp add: ringing_client_eq mounted_client_def)

text \<open>
  Claim C8 says that every received \<^verbatim>\<open>ice_candidate\<close> event that is neither null nor
  malformed is applied to the peer connection. The server writes the frame
  \<^verbatim>\<open>{type, message: candidate, data: candidate}\<close> to the subscription, and the handler of
  the subscription reads \<^verbatim>\<open>data.candidate\<close> of it, which no such frame has: for every
  candidate and every client, a pushed \<^verbatim>\<open>ice_candidate\<close> frame leaves the client as it
  was. User 7 posts a well-formed candidate for user 2, who is in the call with a peer
  connection and an open subscription: the frame the server wrote is not applied, while
  the copy of the same candidate that the poll returns is. Polled while user 2 is still
  ringing, before the answer created the peer connection, the candidate is not applied
  either, and no later poll returns it again.
\<close>

theorem C8_pushed_candidate_not_applied:
  "pushed_ice_frames =
     [JObj [(''type'', JStr ''ice_candidate''), (''message'', sample_candidate), (''data'', sample_candidate)]]
   \<and> connectionRef in_call_client = Conn 1
   \<and> iceCandidates (peers in_call_client 1) = []
   \<and> foldl (\<lambda>c frame. sse_onmessage (\<lambda>c. True) mount_render frame c) in_call_client pushed_ice_frames
       = in_call_client
   \<and> sse_onmessage accepts r (eventPayload ''ice_candidate'' candidate) c = c
   \<and> iceCandidates (peers (poll_signals (\<lambda>c. True) mount_render polled_ice_signals in_call_client) 1)
       = [sample_candidate]
   \<and> poll_signals (\<lambda>c. True) mount_render polled_ice_signals ringing_client = ringing_client
   \<and> fst (calls_poll now (JNum 2) (snd (calls_poll 3500 (JNum 2) ice_relay_server))) = []"
proof -
  have a: "pushed_ice_frames =
     [JObj [(''type'', JStr ''ice_candidate''), (''message'', sample_candidate), (''data'', sample_candidate)]]"
    by (simp add: pushed_ice_frames_eq eventPayload_def)
  have b: "foldl (\<lambda>c frame. sse_onmessage (\<lambda>c. True) mount_render frame c) in_call_client pushed_ice_frames
       = in_call_client"
    by (simp add: pushed_ice_frames_eq pushed_frame_has_no_candidate)
  have tr: "truthy sample_candidate" "truthy (getProp sample_candidate ''candidate'')"
    "sample_candidate \<noteq> JNull" "sample_candidate \<noteq> JUndefined"
    by (simp_all add: sample_candidate_def)
  have ap: "on_ice_candidate (\<lambda>c. True) sample_candidate in_call_client =
      in_call_client\<lparr>peers := (peers in_call_client)(1 := (peers in_call_client 1)
         \<lparr>iceCandidates := iceCandidates (peers in_call_client 1) @ [sample_candidate]\<rparr>)\<rparr>"
    unfolding on_ice_candidate_def in_call_client_facts(5) using tr by simp
  have d: "iceCandidates (peers (poll_signals (\<lambda>c. True) mount_render polled_ice_signals in_call_client) 1)
       = [sample_candidate]"
    using no_candidates_yet by (simp add: polled_ice_signals_eq poll_signal_def Let_def ap)
  have e: "poll_signals (\<lambda>c. True) mount_render polled_ice_signals ringing_client = ringing_client"
    by (simp add: polled_ice_signals_eq poll_signal_def Let_def on_ice_candidate_def
        ringing_has_no_connection)
  have f: "fst (calls_poll now (JNum 2) (snd (calls_poll 3500 (JNum 2) ice_relay_server))) = []"
    by (simp add: calls_poll_def second_drain_empty)
  show ?thesis
    using a b pushed_frame_has_no_candidate [of accepts r candidate c] no_candidates_yet
      in_call_client_facts(5) d e f
    by simp
qed

lemma on_end_call_tracks:
  "tracks (on_end_call r c) =
     (case localStream r of None \<Rightarrow> tracks c
      | Some s \<Rightarrow> (tracks c)(s := map (\<lambda>live. False) (tracks c s)))"
  by (cases "localStream r") (simp_all add: on_end_call_def Let_def endCallCleanup_tracks)

lemma on_end_call_closes:
  assumes "connectionRef c = Conn p"
  shows "closed (peers (on_end_call r c) p) \<and> connectionRef (on_end_call r c) = ConnNull"
proof -
  let ?c1 = "logOp MarkEnded (c\<lparr>callEndedIntentionallyRef := True\<rparr>)"
  let ?c2 = "?c1\<lparr>current := (current ?c1)\<lparr>showCallEnding := True\<rparr>\<rparr>"
  have "\<And>m. connectionRef (detachHandlers (setCallStatus m ?c2)) = Conn p"
    using assms by simp
  then show ?thesis
    by (simp add: on_end_call_def Let_def endCallCleanup_closes)
qed

text \<open>
  Claim C7 says that the cleanup stops all local media tracks on every termination
  trigger. \<^verbatim>\<open>endCallCleanup\<close> stops the tracks of \<^verbatim>\<open>localStream\<close>, a state variable: called
  from the \<^verbatim>\<open>end_call\<close> branch it reads the render of the mount, where \<^verbatim>\<open>localStream\<close> is
  \<^verbatim>\<open>null\<close>. User 2 has answered the call of user 7 and holds stream 1 with two live tracks.
  When \<^verbatim>\<open>end_call\<close> arrives, pushed or polled, the peer connection is closed and the
  tracks stay live, also after the reset timer has run. The hang-up button, whose
  handler reads the latest render, stops them.
\<close>

theorem C7_remote_end_keeps_tracks_live:
  "localStream (current in_call_client) = Some 1 \<and> tracks in_call_client 1 = [True, True]
   \<and> tracks (sse_onmessage (\<lambda>c. True) mount_render remote_end_frame in_call_client) 1 = [True, True]
   \<and> tracks (resetTimeoutFired
        (sse_onmessage (\<lambda>c. True) mount_render remote_end_frame in_call_client)) 1 = [True, True]
   \<and> tracks (poll_signals (\<lambda>c. True) mount_render [remote_end_signal] in_call_client) 1 = [True, True]
   \<and> closed (peers (sse_onmessage (\<lambda>c. True) mount_render remote_end_frame in_call_client) 1)
   \<and> tracks (leaveCall (current in_call_client) in_call_client) 1 = [False, False]"
proof -
  have sse: "sse_onmessage (\<lambda>c. True) mount_render remote_end_frame in_call_client
             = on_end_call mount_render in_call_client"
    by (simp add: sse_onmessage_def remote_end_frame_def eventPayload_def Let_def)
  have poll: "poll_signals (\<lambda>c. True) mount_render [remote_end_signal] in_call_client
             = on_end_call mount_render in_call_client"
    by (simp add: poll_signal_def remote_end_signal_def Let_def)
  have t: "tracks (on_end_call mount_render in_call_client) = tracks in_call_client"
    by (simp add: on_end_call_tracks mount_render_def)
  have cl: "closed (peers (on_end_call mount_render in_call_client) 1)"
    using on_end_call_closes [of in_call_client 1 mount_render] in_call_client_facts(5) by simp
  have "tracks (leaveCall (current in_call_client) in_call_client) 1
          = map (\<lambda>live. False) (tracks in_call_client 1)"
    using in_call_client_facts(3)
    by (simp add: leaveCall_unfold cleanup_stops_tracks_of_render)
  then have lv: "tracks (leaveCall (current in_call_client) in_call_client) 1 = [False, False]"
    unfolding in_call_client_facts by simp
  show ?thesis
    unfolding sse poll using t cl lv in_call_client_facts(3,4) by simp
qed

lemma oplog_detachHandlers: "\<exists>ops. oplog (detachHandlers c) = oplog c @ ops"
  by (cases "connectionRef c") (simp_all add: detachHandlers_def)

lemma oplog_stopLocalStream: "\<exists>ops. oplog (stopLocalStream r c) = oplog c @ ops"
  by (cases "localStream r") (simp_all add: stopLocalStream_def)

lemma oplog_closeConnection: "\<exists>ops. oplog (closeConnection c) = oplog c @ ops"
  by (cases "connectionRef c") (simp_all add: closeConnection_def)

lemma oplog_clearVideoElements [simp]:
  "oplog (clearVideoElements c) = oplog c @ [ClearVideo]"
  by (simp add: clearVideoElements_def)

lemma oplog_tail:
  "\<exists>ops. oplog (closeConnection (clearVideoElements (stopLocalStream r c))) = oplog c @ ops"
proof -
  obtain a where a: "oplog (stopLocalStream r c) = oplog c @ a"
    using oplog_stopLocalStream by blast
  obtain b where b: "oplog (closeConnection (clearVideoElements (stopLocalStream r c)))
                       = oplog (clearVideoElements (stopLocalStream r c)) @ b"
    using oplog_closeConnection by blast
  show ?thesis by (simp add: a b)
qed

lemma flag_set_first:
  "\<exists>ops. oplog (endCallCleanup r m c) = oplog c @ MarkEnded # ops"
proof -
  let ?c1 = "logOp MarkEnded (c\<lparr>callEndedIntentionallyRef := True\<rparr>)"
  let ?c2 = "detachHandlers ?c1"
  obtain a where a: "oplog ?c2 = oplog ?c1 @ a" using oplog_detachHandlers by blast
  have c1: "oplog ?c1 = oplog c @ [MarkEnded]" by simp
  show ?thesis
  proof (cases "m = []")
    case True
    obtain b where "oplog (closeConnection (clearVideoElements (stopLocalStream r (resetCallState ?c2))))
                      = oplog (resetCallState ?c2) @ b"
      using oplog_tail by blast
    then show ?thesis using True a c1 by (simp add: endCallCleanup_def Let_def resetCallState_def)
  next
    case False
    let ?c3 = "logOp (ShowStatus m) (?c2\<lparr>current := (current ?c2)\<lparr>callStatus := m, showCallEnding := True\<rparr>\<rparr>)"
    obtain b where "oplog (closeConnection (clearVideoElements (stopLocalStream r ?c3))) = oplog ?c3 @ b"
      using oplog_tail by blast
    then show ?thesis using False a c1 by (simp add: endCallCleanup_def Let_def)
  qed
qed

end
